theory Spec2Isabelle
  imports Complex_Main "HOL-Library.Multiset" "HOL-Library.Char_ord" "HOL-Library.List_Lexorder"
begin

section \<open>The lottery plugin (src/shift/shift.ts): data model\<close>

text \<open>
  The plugin keeps its state in four SQLite tables. A table is modelled as the list of
  its rows in rowid order (an INSERT appends), a nullable column as an option, Date.now()
  as an integer argument. The module-level handle \<open>db\<close> is opened when the module loads,
  so the guard \<open>if (!db) return ...\<close> at the head of every function is never taken and
  is left out. The enums are the source's.
\<close>

datatype PrizeStatus = SENT | PENDING | EXPIRED

datatype LotteryMode = MANUAL | AUTO

datatype DistributionMode = CLAIM | AUTO_SEND

text \<open>Table lottery\_config; the status column holds 'active' or 'completed'.\<close>

record lottery_row =
  lc_id :: int
  lc_chat_id :: string
  lc_title :: string
  lc_keyword :: string
  lc_max_participants :: int
  lc_winner_count :: int
  lc_mode :: LotteryMode
  lc_distribution_mode :: DistributionMode
  lc_claim_timeout :: "int option"
  lc_delete_delay :: "int option"
  lc_require_avatar :: bool
  lc_require_username :: bool
  lc_required_channel :: "string option"
  lc_prize_warehouse :: "string option"
  lc_allow_bots :: bool
  lc_member_filter :: "string option"
  lc_auto_draw_time :: "int option"
  lc_created_at :: int
  lc_status :: string
  lc_creator_id :: string
  lc_unique_id :: string

text \<open>Table lottery\_participants, with UNIQUE(lottery\_id, user\_id).\<close>

record participant_row =
  lp_id :: int
  lp_lottery_id :: int
  lp_user_id :: string
  lp_username :: "string option"
  lp_first_name :: "string option"
  lp_last_name :: "string option"
  lp_joined_at :: int

text \<open>Table lottery\_winners.\<close>

record winner_row =
  lw_id :: int
  lw_lottery_id :: int
  lw_user_id :: string
  lw_username :: "string option"
  lw_first_name :: "string option"
  lw_last_name :: "string option"
  lw_prize_id :: "int option"
  lw_prize_text :: "string option"
  lw_status :: PrizeStatus
  lw_assigned_at :: int
  lw_claimed_at :: "int option"
  lw_expires_at :: "int option"

text \<open>Table prize\_warehouse.\<close>

record prize_row =
  pw_id :: int
  pw_warehouse_name :: string
  pw_prize_text :: string
  pw_stock_count :: int
  pw_order_index :: int
  pw_created_at :: int

text \<open>
  The database: the four tables and, for each AUTOINCREMENT key, the largest rowid
  handed out so far (SQLite's sqlite\_sequence).
\<close>

record database =
  lottery_config :: "lottery_row list"
  lottery_participants :: "participant_row list"
  lottery_winners :: "winner_row list"
  prize_warehouse :: "prize_row list"
  seq_config :: int
  seq_participants :: int
  seq_winners :: int
  seq_prizes :: int

text \<open>The object the join handler passes to the admission (\<open>userInfo\<close>).\<close>

record userInfo =
  user_id :: string
  username :: "string option"
  first_name :: "string option"
  last_name :: "string option"

text \<open>JavaScript's \<open>s || null\<close> on a string or null: the empty string is falsy.\<close>

definition or_null :: "string option \<Rightarrow> string option" where
  "or_null s = (case s of None \<Rightarrow> None | Some t \<Rightarrow> (if t = [] then None else Some t))"

section \<open>Prize inventory\<close>

text \<open>
  getWarehousePrizes: SELECT * WHERE warehouse\_name = ? AND stock\_count > 0
  ORDER BY order\_index. Rows of equal order\_index stay in rowid order (a stable sort).
\<close>

definition getWarehousePrizes :: "database \<Rightarrow> string \<Rightarrow> prize_row list" where
  "getWarehousePrizes d warehouseName =
     sort_key pw_order_index
       (filter (\<lambda>r. pw_warehouse_name r = warehouseName \<and> 0 < pw_stock_count r)
          (prize_warehouse d))"

text \<open>getNextAvailablePrize: the same query with LIMIT 1; \<open>None\<close> is the source's null.\<close>

definition getNextAvailablePrize :: "database \<Rightarrow> string \<Rightarrow> prize_row option" where
  "getNextAvailablePrize d warehouseName =
     (case getWarehousePrizes d warehouseName of [] \<Rightarrow> None | p # _ \<Rightarrow> Some p)"

text \<open>
  consumePrize: UPDATE prize\_warehouse SET stock\_count = stock\_count - 1
  WHERE id = ? AND stock\_count > 0, returning \<open>result.changes > 0\<close>.
\<close>

definition consumable :: "int \<Rightarrow> prize_row \<Rightarrow> bool" where
  "consumable prizeId r = (pw_id r = prizeId \<and> 0 < pw_stock_count r)"

definition consumePrize :: "database \<Rightarrow> int \<Rightarrow> bool \<times> database" where
  "consumePrize d prizeId =
     (0 < length (filter (consumable prizeId) (prize_warehouse d)),
      d\<lparr>prize_warehouse :=
          map (\<lambda>r. if consumable prizeId r then r\<lparr>pw_stock_count := pw_stock_count r - 1\<rparr> else r)
            (prize_warehouse d)\<rparr>)"

text \<open>A sequence of consume calls, each on the database the previous one left.\<close>

fun consumeAll :: "database \<Rightarrow> int list \<Rightarrow> database" where
  "consumeAll d [] = d"
| "consumeAll d (prizeId # ids) = consumeAll (snd (consumePrize d prizeId)) ids"

text \<open>The stock of the item with a given id (\<open>None\<close> when there is no such row).\<close>

definition stockOf :: "database \<Rightarrow> int \<Rightarrow> int option" where
  "stockOf d prizeId =
     map_option pw_stock_count (find (\<lambda>r. pw_id r = prizeId) (prize_warehouse d))"

section \<open>Participant ledger\<close>

text \<open>
  addParticipantToLottery runs a transaction whose body throws on a full or missing
  lottery and on a user already present; the function catches whatever is thrown, logs
  it and returns false. The thrown error is a value of the model; the third error is the
  INSERT failing on the table's UNIQUE constraint.
\<close>

datatype admit_error = LotteryFullOrNotFound | UserAlreadyParticipated | UniqueConstraintFailed

definition countParticipants :: "database \<Rightarrow> int \<Rightarrow> int" where
  "countParticipants d lotteryId =
     int (length (filter (\<lambda>p. lp_lottery_id p = lotteryId) (lottery_participants d)))"

definition participantExists :: "database \<Rightarrow> int \<Rightarrow> string \<Rightarrow> bool" where
  "participantExists d lotteryId uid =
     list_ex (\<lambda>p. lp_lottery_id p = lotteryId \<and> lp_user_id p = uid) (lottery_participants d)"

definition insertParticipant :: "int \<Rightarrow> database \<Rightarrow> int \<Rightarrow> userInfo \<Rightarrow> admit_error + database" where
  "insertParticipant now d lotteryId participant =
     (if participantExists d lotteryId (user_id participant) then Inl UniqueConstraintFailed
      else Inr (d\<lparr>lottery_participants := lottery_participants d @
                  [\<lparr>lp_id = seq_participants d + 1, lp_lottery_id = lotteryId,
                    lp_user_id = user_id participant,
                    lp_username = or_null (username participant),
                    lp_first_name = or_null (first_name participant),
                    lp_last_name = or_null (last_name participant),
                    lp_joined_at = now\<rparr>],
                seq_participants := seq_participants d + 1\<rparr>))"

definition addParticipantTransaction ::
  "int \<Rightarrow> database \<Rightarrow> int \<Rightarrow> userInfo \<Rightarrow> admit_error + database" where
  "addParticipantTransaction now d lotteryId participant =
     (let currentCount = countParticipants d lotteryId;
          lottery = find (\<lambda>l. lc_id l = lotteryId) (lottery_config d)
      in case lottery of
           None \<Rightarrow> Inl LotteryFullOrNotFound
         | Some l \<Rightarrow>
             if lc_max_participants l \<le> currentCount then Inl LotteryFullOrNotFound
             else if participantExists d lotteryId (user_id participant)
               then Inl UserAlreadyParticipated
             else insertParticipant now d lotteryId participant)"

definition addParticipantToLottery ::
  "int \<Rightarrow> database \<Rightarrow> int \<Rightarrow> userInfo \<Rightarrow> bool \<times> database" where
  "addParticipantToLottery now d lotteryId participant =
     (case addParticipantTransaction now d lotteryId participant of
        Inl e \<Rightarrow> (False, d)
      | Inr d' \<Rightarrow> (True, d'))"

text \<open>A sequence of admission calls (time, lottery id, participant), in order.\<close>

fun admissions :: "database \<Rightarrow> (int \<times> int \<times> userInfo) list \<Rightarrow> database" where
  "admissions d [] = d"
| "admissions d ((now, lotteryId, participant) # calls) =
     admissions (snd (addParticipantToLottery now d lotteryId participant)) calls"

text \<open>The user ids of a lottery's participant rows, in row order.\<close>

definition participantIds :: "database \<Rightarrow> int \<Rightarrow> string list" where
  "participantIds d lotteryId =
     map lp_user_id (filter (\<lambda>p. lp_lottery_id p = lotteryId) (lottery_participants d))"

section \<open>Draw engine and distribution\<close>

text \<open>
  What the surroundings answer during a draw: the clock, Math.random() at each index of
  the shuffle loop (a number in [0, 1)), whether the private message to a user goes
  through, and whether the message to the chat goes through.
\<close>

record env =
  env_now :: int
  env_random :: "nat \<Rightarrow> real"
  env_dm_ok :: "string \<Rightarrow> bool"
  env_chat_ok :: bool

text \<open>getLotteryParticipants: SELECT * WHERE lottery\_id = ? ORDER BY joined\_at.\<close>

definition getLotteryParticipants :: "database \<Rightarrow> int \<Rightarrow> participant_row list" where
  "getLotteryParticipants d lotteryId =
     sort_key lp_joined_at (filter (\<lambda>p. lp_lottery_id p = lotteryId) (lottery_participants d))"

text \<open>
  getLotteryWinners: the winner rows of a lottery ORDER BY assigned\_at (the columns the
  LEFT JOIN adds from lottery\_participants are display names only).
\<close>

definition getLotteryWinners :: "database \<Rightarrow> int \<Rightarrow> winner_row list" where
  "getLotteryWinners d lotteryId =
     sort_key lw_assigned_at (filter (\<lambda>w. lw_lottery_id w = lotteryId) (lottery_winners d))"

text \<open>
  getActiveLottery: SELECT * WHERE chat\_id = ? AND status = 'active'
  ORDER BY created\_at DESC LIMIT 1.
\<close>

definition getActiveLottery :: "database \<Rightarrow> string \<Rightarrow> lottery_row option" where
  "getActiveLottery d chatId =
     (case sort_key (\<lambda>l. - lc_created_at l)
             (filter (\<lambda>l. lc_chat_id l = chatId \<and> lc_status l = ''active'') (lottery_config d)) of
        [] \<Rightarrow> None
      | l # _ \<Rightarrow> Some l)"

text \<open>
  The Fisher-Yates loop of performLotteryDraw:
  \<^verbatim>\<open>for (let i = shuffled.length - 1; i > 0; i--) {
    const j = Math.floor(Math.random() * (i + 1));
    [shuffled[i], shuffled[j]] = [shuffled[j], shuffled[i]]; }\<close>
  \<open>rnd i\<close> is the value Math.random() returns at index \<open>i\<close>; it lies in [0, 1), which keeps
  \<open>j\<close> at most \<open>i\<close>.
\<close>

fun shuffleFrom :: "(nat \<Rightarrow> real) \<Rightarrow> nat \<Rightarrow> 'a list \<Rightarrow> 'a list" where
  "shuffleFrom rnd 0 xs = xs"
| "shuffleFrom rnd (Suc i) xs =
     (let j = nat \<lfloor>rnd (Suc i) * real (Suc i + 1)\<rfloor>
      in shuffleFrom rnd i (xs[Suc i := xs ! j, j := xs ! Suc i]))"

definition fisherYates :: "(nat \<Rightarrow> real) \<Rightarrow> 'a list \<Rightarrow> 'a list" where
  "fisherYates rnd xs = shuffleFrom rnd (length xs - 1) xs"

text \<open>
  Array.prototype.slice(0, end) for an integer end: a negative end counts from the end
  of the array.
\<close>

definition slice0 :: "'a list \<Rightarrow> int \<Rightarrow> 'a list" where
  "slice0 xs e =
     (let n = int (length xs);
          k = (if e < 0 then max (n + e) 0 else min e n)
      in take (nat k) xs)"

text \<open>The placeholder prize text of distributePrizes, as its UTF-8 bytes.\<close>

definition fallbackPrizeText :: string where
  "fallbackPrizeText =
     [CHR 0xE6, CHR 0x81, CHR 0xAD, CHR 0xE5, CHR 0x96, CHR 0x9C, CHR 0xE4, CHR 0xB8, CHR 0xAD,
      CHR 0xE5, CHR 0xA5, CHR 0x96, CHR 0xEF, CHR 0xBC, CHR 0x81]"

text \<open>\<open>lottery.prize_warehouse || "default"\<close> and \<open>lottery.claim_timeout * 1000\<close> (null * 1000 is 0).\<close>

definition warehouseOf :: "lottery_row \<Rightarrow> string" where
  "warehouseOf lottery =
     (case lc_prize_warehouse lottery of
        None \<Rightarrow> ''default''
      | Some w \<Rightarrow> (if w = [] then ''default'' else w))"

definition claimTimeoutMs :: "lottery_row \<Rightarrow> int" where
  "claimTimeoutMs lottery = (case lc_claim_timeout lottery of None \<Rightarrow> 0 | Some t \<Rightarrow> t * 1000)"

text \<open>
  The INSERT INTO lottery\_winners of distributePrizes. The module's start-up code and
  the init command leave the table with an assigned\_at column, so the statement of the
  \<open>finalHasAssignedAt\<close> branch is the one that runs.
\<close>

definition insertWinner ::
  "int \<Rightarrow> lottery_row \<Rightarrow> participant_row \<Rightarrow> string \<Rightarrow> database \<Rightarrow> database" where
  "insertWinner now lottery winner prizeText d =
     d\<lparr>lottery_winners := lottery_winners d @
          [\<lparr>lw_id = seq_winners d + 1, lw_lottery_id = lc_id lottery,
            lw_user_id = lp_user_id winner,
            lw_username = or_null (lp_username winner),
            lw_first_name = or_null (lp_first_name winner),
            lw_last_name = or_null (lp_last_name winner),
            lw_prize_id = None, lw_prize_text = Some prizeText, lw_status = PENDING,
            lw_assigned_at = now, lw_claimed_at = None,
            lw_expires_at = Some (now + claimTimeoutMs lottery)\<rparr>],
        seq_winners := seq_winners d + 1\<rparr>"

text \<open>One pass of the loop in the transaction of distributePrizes.\<close>

definition assignPrize :: "int \<Rightarrow> lottery_row \<Rightarrow> database \<Rightarrow> participant_row \<Rightarrow> database" where
  "assignPrize now lottery d winner =
     (let prize = getNextAvailablePrize d (warehouseOf lottery);
          prizeText = (case prize of Some p \<Rightarrow> pw_prize_text p | None \<Rightarrow> fallbackPrizeText);
          d1 = insertWinner now lottery winner prizeText d
      in case prize of
           Some p \<Rightarrow> snd (consumePrize d1 (pw_id p))
         | None \<Rightarrow> d1)"

fun distributeTransaction ::
  "int \<Rightarrow> lottery_row \<Rightarrow> participant_row list \<Rightarrow> database \<Rightarrow> database" where
  "distributeTransaction now lottery [] d = d"
| "distributeTransaction now lottery (winner # winners) d =
     distributeTransaction now lottery winners (assignPrize now lottery d winner)"

text \<open>
  sendPrizeToWinner: the private message, then UPDATE lottery\_winners SET status = 'sent',
  claimed\_at = now WHERE lottery\_id = ? AND user\_id = ?. A failed send is caught and
  returns false.
\<close>

definition sendPrizeToWinner ::
  "env \<Rightarrow> participant_row \<Rightarrow> lottery_row \<Rightarrow> database \<Rightarrow> bool \<times> database" where
  "sendPrizeToWinner e winner lottery d =
     (if env_dm_ok e (lp_user_id winner)
      then (True,
            d\<lparr>lottery_winners :=
                map (\<lambda>w. if lw_lottery_id w = lc_id lottery \<and> lw_user_id w = lp_user_id winner
                          then w\<lparr>lw_status := SENT, lw_claimed_at := Some (env_now e)\<rparr>
                          else w)
                  (lottery_winners d)\<rparr>)
      else (False, d))"

text \<open>The loop after the transaction, run in the auto-send mode.\<close>

fun sendAll :: "env \<Rightarrow> lottery_row \<Rightarrow> participant_row list \<Rightarrow> database \<Rightarrow> database" where
  "sendAll e lottery [] d = d"
| "sendAll e lottery (winner # winners) d =
     (case find (\<lambda>w. lw_user_id w = lp_user_id winner) (getLotteryWinners d (lc_id lottery)) of
        None \<Rightarrow> sendAll e lottery winners d
      | Some winnerRecord \<Rightarrow> sendAll e lottery winners (snd (sendPrizeToWinner e winner lottery d)))"

definition distributePrizes ::
  "env \<Rightarrow> lottery_row \<Rightarrow> participant_row list \<Rightarrow> database \<Rightarrow> database" where
  "distributePrizes e lottery winners d =
     (let d1 = distributeTransaction (env_now e) lottery winners d
      in if lc_distribution_mode lottery = AUTO_SEND then sendAll e lottery winners d1 else d1)"

text \<open>
  The selection order in the spec's words, to compare the distribution pass with: the
  units on offer are the items of the warehouse with stock, in ascending order\_index, each
  as many times as its stock; \<open>n\<close> winners in turn take the first \<open>n\<close> units, and those
  who come after the last unit get the fallback text.
\<close>

definition spec_prizeQueue :: "database \<Rightarrow> string \<Rightarrow> string list" where
  "spec_prizeQueue d warehouseName =
     concat (map (\<lambda>p. replicate (nat (pw_stock_count p)) (pw_prize_text p))
       (getWarehousePrizes d warehouseName))"

definition spec_assignedTexts :: "database \<Rightarrow> string \<Rightarrow> nat \<Rightarrow> string list" where
  "spec_assignedTexts d warehouseName n =
     take n (spec_prizeQueue d warehouseName)
       @ replicate (n - length (spec_prizeQueue d warehouseName)) fallbackPrizeText"

text \<open>UPDATE lottery\_config SET status = 'completed' WHERE id = ?.\<close>

definition markCompleted :: "int \<Rightarrow> database \<Rightarrow> database" where
  "markCompleted lotteryId d =
     d\<lparr>lottery_config :=
         map (\<lambda>l. if lc_id l = lotteryId then l\<lparr>lc_status := ''completed''\<rparr> else l)
           (lottery_config d)\<rparr>"

text \<open>
  What a draw tells the chat: no participants, the winners, or (from the catch block,
  when a send threw) that the draw failed; the draw command also answers that the chat
  has no active lottery.
\<close>

datatype draw_outcome = NoActiveLottery | NoParticipants | WinnersAnnounced | DrawFailed

definition selectWinners :: "env \<Rightarrow> lottery_row \<Rightarrow> participant_row list \<Rightarrow> participant_row list" where
  "selectWinners e lottery participants =
     (let winnerCount = min (lc_winner_count lottery) (int (length participants));
          shuffled = fisherYates (env_random e) participants
      in slice0 shuffled winnerCount)"

definition performLotteryDraw :: "env \<Rightarrow> lottery_row \<Rightarrow> database \<Rightarrow> draw_outcome \<times> database" where
  "performLotteryDraw e lottery d =
     (let participants = getLotteryParticipants d (lc_id lottery)
      in if length participants = 0
         then (if env_chat_ok e then (NoParticipants, markCompleted (lc_id lottery) d)
               else (DrawFailed, d))
         else
           (let winners = selectWinners e lottery participants;
                d1 = distributePrizes e lottery winners d
            in if env_chat_ok e then (WinnersAnnounced, markCompleted (lc_id lottery) d1)
               else (DrawFailed, d1)))"

text \<open>The draw subcommand of the lottery command.\<close>

definition lotteryDraw :: "env \<Rightarrow> string \<Rightarrow> database \<Rightarrow> draw_outcome \<times> database" where
  "lotteryDraw e chatId d =
     (case getActiveLottery d chatId of
        None \<Rightarrow> (NoActiveLottery, d)
      | Some activeLottery \<Rightarrow> performLotteryDraw e activeLottery d)"

text \<open>
  The last stage of handleEnhancedLotteryJoin, from \<open>addParticipantToLottery\<close> on: the
  admission, and the automatic draw when the count has reached the limit. \<open>activeLottery\<close>
  is the row the handler read before it awaited the sender and the eligibility checks.
  The stages before it (sender, repeated join, eligibility) are in \<open>joinWithLottery\<close> below.
\<close>

definition joinAndAutoDraw ::
  "env \<Rightarrow> lottery_row \<Rightarrow> userInfo \<Rightarrow> database \<Rightarrow> bool \<times> draw_outcome option \<times> database" where
  "joinAndAutoDraw e activeLottery info d =
     (case addParticipantToLottery (env_now e) d (lc_id activeLottery) info of
        (added, d1) \<Rightarrow>
          if \<not> added then (False, None, d1)
          else
            (let currentCount = int (length (getLotteryParticipants d1 (lc_id activeLottery)))
             in if lc_max_participants activeLottery \<le> currentCount
                then (case performLotteryDraw e activeLottery d1 of
                        (outcome, d2) \<Rightarrow> (True, Some outcome, d2))
                else (True, None, d1)))"

section \<open>The join handler\<close>

text \<open>
  handleEnhancedLotteryJoin. What the handler is given: the message with its text, whether
  \<open>msg.senderId\<close> and \<open>msg.client\<close> are there, the chat id (\<open>None\<close> when none of
  \<open>msg.chat.id\<close>, \<open>msg.peerId\<close>, \<open>msg.chatId\<close> gives one) and the result of
  \<open>msg.getSender()\<close>; \<open>sender_id\<close> is \<open>String(sender.id || sender)\<close>.
\<close>

record sender =
  sender_id :: string
  sender_bot :: bool
  sender_username :: "string option"
  sender_firstName :: "string option"
  sender_lastName :: "string option"

record join_message =
  jm_message :: string
  jm_has_senderId :: bool
  jm_has_client :: bool
  jm_chatId :: "string option"
  jm_sender :: "sender option"

text \<open>
  What the entity resolver answers in validateUserConditions: for the avatar, the lookup
  throws, gives no entity or one without a photo field, or an entity whose photo is
  absent or present; for the required channel, the lookup throws, or the user is not a
  member, or is.
\<close>

datatype avatar_lookup = AvatarLookupThrows | AvatarUnknown | AvatarAbsent | AvatarPresent

datatype channel_lookup = ChannelLookupThrows | NotMember | Member

record resolver =
  res_avatar :: "string \<Rightarrow> avatar_lookup"
  res_channel :: "string \<Rightarrow> string \<Rightarrow> channel_lookup"

datatype ineligible_reason = BotNotAllowed | AvatarRequired | UsernameRequired | ChannelRequired

text \<open>
  validateUserConditions; \<open>None\<close> is \<open>{ valid: true }\<close>. A throwing avatar lookup is caught
  by the outer catch, which allows the user; a throwing channel lookup is caught by the
  inner one, which does not.
\<close>

definition channelCheck :: "resolver \<Rightarrow> sender \<Rightarrow> lottery_row \<Rightarrow> ineligible_reason option" where
  "channelCheck r user lottery =
     (case or_null (lc_required_channel lottery) of
        None \<Rightarrow> None
      | Some channel \<Rightarrow>
          (case res_channel r channel (sender_id user) of
             Member \<Rightarrow> None
           | NotMember \<Rightarrow> Some ChannelRequired
           | ChannelLookupThrows \<Rightarrow> Some ChannelRequired))"

definition usernameCheck :: "resolver \<Rightarrow> sender \<Rightarrow> lottery_row \<Rightarrow> ineligible_reason option" where
  "usernameCheck r user lottery =
     (if lc_require_username lottery \<and> or_null (sender_username user) = None
      then Some UsernameRequired
      else channelCheck r user lottery)"

definition validateUserConditions ::
  "resolver \<Rightarrow> sender \<Rightarrow> lottery_row \<Rightarrow> ineligible_reason option" where
  "validateUserConditions r user lottery =
     (if \<not> lc_allow_bots lottery \<and> sender_bot user then Some BotNotAllowed
      else if lc_require_avatar lottery
        then (case res_avatar r (sender_id user) of
                AvatarLookupThrows \<Rightarrow> None
              | AvatarAbsent \<Rightarrow> Some AvatarRequired
              | AvatarUnknown \<Rightarrow> usernameCheck r user lottery
              | AvatarPresent \<Rightarrow> usernameCheck r user lottery)
      else usernameCheck r user lottery)"

text \<open>
  What the handler does with the message: nothing, the reply to a repeated join, the
  deletion of the message of a user who is not eligible, or the reply to a join (with
  the outcome of the automatic draw, when one ran).
\<close>

datatype join_action = Silent | DuplicateReply | DeleteMessage | JoinReply "draw_outcome option"

text \<open>
  The handler up to its first await: the active lottery of the chat whose keyword the
  trimmed text is. String.prototype.trim is an argument of the model.
\<close>

definition joinTarget :: "(string \<Rightarrow> string) \<Rightarrow> join_message \<Rightarrow> database \<Rightarrow> lottery_row option" where
  "joinTarget trim msg d =
     (if jm_message msg = [] \<or> \<not> jm_has_senderId msg \<or> \<not> jm_has_client msg then None
      else case jm_chatId msg of
             None \<Rightarrow> None
           | Some chatId \<Rightarrow>
               (case getActiveLottery d chatId of
                  None \<Rightarrow> None
                | Some activeLottery \<Rightarrow>
                    if trim (jm_message msg) \<noteq> lc_keyword activeLottery then None
                    else Some activeLottery))"

text \<open>The handler from the sender on, with the lottery row read before.\<close>

definition joinWithLottery ::
  "resolver \<Rightarrow> env \<Rightarrow> lottery_row \<Rightarrow> join_message \<Rightarrow> database \<Rightarrow> join_action \<times> database" where
  "joinWithLottery r e activeLottery msg d =
     (case jm_sender msg of
        None \<Rightarrow> (Silent, d)
      | Some sender \<Rightarrow>
          if sender_bot sender then (Silent, d)
          else if list_ex (\<lambda>p. lp_user_id p = sender_id sender)
                    (getLotteryParticipants d (lc_id activeLottery))
            then (DuplicateReply, d)
          else
            (case validateUserConditions r sender activeLottery of
               Some reason \<Rightarrow> (DeleteMessage, d)
             | None \<Rightarrow>
                 (case joinAndAutoDraw e activeLottery
                         \<lparr>user_id = sender_id sender,
                          username = or_null (sender_username sender),
                          first_name = or_null (sender_firstName sender),
                          last_name = or_null (sender_lastName sender)\<rparr> d of
                    (added, outcome, d1) \<Rightarrow>
                      if added then (JoinReply outcome, d1) else (Silent, d1))))"

definition handleEnhancedLotteryJoin ::
  "(string \<Rightarrow> string) \<Rightarrow> resolver \<Rightarrow> env \<Rightarrow> join_message \<Rightarrow> database \<Rightarrow> join_action \<times> database" where
  "handleEnhancedLotteryJoin trim r e msg d =
     (case joinTarget trim msg d of
        None \<Rightarrow> (Silent, d)
      | Some activeLottery \<Rightarrow> joinWithLottery r e activeLottery msg d)"

section \<open>Winner records: send, claim, expiry\<close>

text \<open>
  updateWinnerStatusByUser: UPDATE lottery\_winners SET status = ?, claimed\_at = ?
  WHERE lottery\_id = ? AND user\_id = ?, with \<open>claimedAt || Date.now()\<close>.
\<close>

definition updateWinnerStatusByUser ::
  "int \<Rightarrow> database \<Rightarrow> int \<Rightarrow> string \<Rightarrow> PrizeStatus \<Rightarrow> int option \<Rightarrow> bool \<times> database" where
  "updateWinnerStatusByUser now d lotteryId userId status claimedAt =
     (let hit = (\<lambda>w. lw_lottery_id w = lotteryId \<and> lw_user_id w = userId);
          stamp = (case claimedAt of None \<Rightarrow> now | Some t \<Rightarrow> (if t = 0 then now else t))
      in (0 < length (filter hit (lottery_winners d)),
          d\<lparr>lottery_winners :=
              map (\<lambda>w. if hit w then w\<lparr>lw_status := status, lw_claimed_at := Some stamp\<rparr> else w)
                (lottery_winners d)\<rparr>))"

text \<open>
  expireOldClaims: UPDATE lottery\_winners SET status = 'expired'
  WHERE status = 'pending' AND expires\_at < now (never true of a NULL expires\_at).
\<close>

definition expirable :: "int \<Rightarrow> winner_row \<Rightarrow> bool" where
  "expirable now w =
     (lw_status w = PENDING \<and> (case lw_expires_at w of None \<Rightarrow> False | Some t \<Rightarrow> t < now))"

definition expireOldClaims :: "int \<Rightarrow> database \<Rightarrow> database" where
  "expireOldClaims now d =
     d\<lparr>lottery_winners :=
         map (\<lambda>w. if expirable now w then w\<lparr>lw_status := EXPIRED\<rparr> else w) (lottery_winners d)\<rparr>"

text \<open>
  The three operations that write the status of existing winner records: the automatic
  send of a draw, the claim command's mark-claimed (updateWinnerStatusByUser with SENT),
  and the expiry sweep.
\<close>

datatype winner_op =
    AutoSend env participant_row lottery_row
  | MarkClaimed int int string
  | ExpirySweep int

fun applyOp :: "database \<Rightarrow> winner_op \<Rightarrow> database" where
  "applyOp d (AutoSend e winner lottery) = snd (sendPrizeToWinner e winner lottery d)"
| "applyOp d (MarkClaimed now lotteryId userId) =
     snd (updateWinnerStatusByUser now d lotteryId userId SENT None)"
| "applyOp d (ExpirySweep now) = expireOldClaims now d"

fun applyOps :: "database \<Rightarrow> winner_op list \<Rightarrow> database" where
  "applyOps d [] = d"
| "applyOps d (opn # ops) = applyOps (applyOp d opn) ops"

text \<open>The statuses of the winner records, in row order.\<close>

definition statuses :: "database \<Rightarrow> PrizeStatus list" where
  "statuses d = map lw_status (lottery_winners d)"

section \<open>The create subcommand\<close>

text \<open>The \<open>config\<close> object that the create subcommand hands to createLotteryConfig.\<close>

record lottery_config_input =
  cfg_chat_id :: string
  cfg_title :: string
  cfg_keyword :: string
  cfg_max_participants :: int
  cfg_winner_count :: int
  cfg_mode :: LotteryMode
  cfg_distribution_mode :: DistributionMode
  cfg_claim_timeout :: int
  cfg_delete_delay :: int
  cfg_require_avatar :: bool
  cfg_require_username :: bool
  cfg_required_channel :: "string option"
  cfg_allow_bots :: bool
  cfg_member_filter :: "string option"
  cfg_auto_draw_time :: "int option"
  cfg_creator_id :: string
  cfg_unique_id :: string
  cfg_prize_warehouse :: string

text \<open>String(n) for an integer n.\<close>

definition digitChar :: "nat \<Rightarrow> char" where
  "digitChar n = ''0123456789'' ! n"

function decimal :: "nat \<Rightarrow> string" where
  "decimal n = (if n < 10 then [digitChar n] else decimal (n div 10) @ [digitChar (n mod 10)])"
  by pat_completeness auto
termination
  by (relation "measure id") auto

declare decimal.simps [simp del]

definition stringOfInt :: "int \<Rightarrow> string" where
  "stringOfInt n = (if n < 0 then CHR ''-'' # decimal (nat (- n)) else decimal (nat n))"

text \<open>
  String.prototype.toLowerCase on the ASCII letters. It is only compared with "list",
  and no character outside ASCII lowers to one of l, i, s, t.
\<close>

definition toLowerCase :: "string \<Rightarrow> string" where
  "toLowerCase s =
     map (\<lambda>c. case map_of (zip ''ABCDEFGHIJKLMNOPQRSTUVWXYZ'' ''abcdefghijklmnopqrstuvwxyz'') c of
                 None \<Rightarrow> c
               | Some l \<Rightarrow> l) s"

text \<open>
  createLotteryConfig: the INSERT INTO lottery\_config. The status column takes its
  default 'active'; unique\_id is UNIQUE, and the INSERT throws when it is taken.
\<close>

datatype create_error = UniqueIdTaken

definition createLotteryConfig ::
  "int \<Rightarrow> database \<Rightarrow> lottery_config_input \<Rightarrow> create_error + (int \<times> database)" where
  "createLotteryConfig now d config =
     (if list_ex (\<lambda>l. lc_unique_id l = cfg_unique_id config) (lottery_config d)
      then Inl UniqueIdTaken
      else Inr (seq_config d + 1,
        d\<lparr>lottery_config := lottery_config d @
            [\<lparr>lc_id = seq_config d + 1,
              lc_chat_id = cfg_chat_id config,
              lc_title = cfg_title config,
              lc_keyword = cfg_keyword config,
              lc_max_participants = cfg_max_participants config,
              lc_winner_count = cfg_winner_count config,
              lc_mode = cfg_mode config,
              lc_distribution_mode = cfg_distribution_mode config,
              lc_claim_timeout = Some (cfg_claim_timeout config),
              lc_delete_delay = Some (cfg_delete_delay config),
              lc_require_avatar = cfg_require_avatar config,
              lc_require_username = cfg_require_username config,
              lc_required_channel = or_null (cfg_required_channel config),
              lc_prize_warehouse =
                Some (if cfg_prize_warehouse config = [] then ''default''
                      else cfg_prize_warehouse config),
              lc_allow_bots = cfg_allow_bots config,
              lc_member_filter = or_null (cfg_member_filter config),
              lc_auto_draw_time =
                (case cfg_auto_draw_time config of
                   None \<Rightarrow> None
                 | Some t \<Rightarrow> (if t = 0 then None else Some t)),
              lc_created_at = now,
              lc_status = ''active'',
              lc_creator_id = cfg_creator_id config,
              lc_unique_id = cfg_unique_id config\<rparr>],
          seq_config := seq_config d + 1\<rparr>))"

text \<open>getPrizeWarehouses: SELECT DISTINCT warehouse\_name ORDER BY warehouse\_name.\<close>

definition getPrizeWarehouses :: "database \<Rightarrow> string list" where
  "getPrizeWarehouses d = sort (remdups (map pw_warehouse_name (prize_warehouse d)))"

text \<open>
  getAllWarehousesWithPrizes groups the rows with stock by warehouse; the command only
  asks whether the result is empty, so the model returns the names.
\<close>

definition getAllWarehousesWithPrizes :: "database \<Rightarrow> string list" where
  "getAllWarehousesWithPrizes d =
     sort (remdups (map pw_warehouse_name
       (filter (\<lambda>r. 0 < pw_stock_count r) (prize_warehouse d))))"

text \<open>
  getWarehouseByNameOrIndex. The built-in parseInt is an argument of the model: a
  function from the text to the integer it denotes, \<open>None\<close> for NaN.
\<close>

definition getWarehouseByNameOrIndex ::
  "(string \<Rightarrow> int option) \<Rightarrow> string \<Rightarrow> string list \<Rightarrow> string option" where
  "getWarehouseByNameOrIndex parseInt identifier warehouses =
     (let byName = (if identifier \<in> set warehouses then Some identifier else None)
      in case parseInt identifier of
           None \<Rightarrow> byName
         | Some index \<Rightarrow>
             if 1 \<le> index \<and> index \<le> int (length warehouses)
             then Some (warehouses ! nat (index - 1))
             else byName)"

datatype create_reply =
    SavedMessagesForbidden
  | MissingArguments
  | WarehouseListEmpty
  | WarehouseListShown
  | NotEnoughArguments
  | InvalidNumbers
  | WarehouseNotFound
  | WarehouseHasNoPrizes
  | ActiveLotteryExists
  | CreateFailed
  | Created int

text \<open>The config literal of the create subcommand.\<close>

definition createConfig ::
  "int \<Rightarrow> string \<Rightarrow> string \<Rightarrow> string \<Rightarrow> string \<Rightarrow> int \<Rightarrow> int \<Rightarrow> string \<Rightarrow> lottery_config_input" where
  "createConfig now chatId senderId title keyword maxParticipants winnerCount selectedWarehouse =
     \<lparr>cfg_chat_id = chatId,
      cfg_title = title,
      cfg_keyword = keyword,
      cfg_max_participants = maxParticipants,
      cfg_winner_count = winnerCount,
      cfg_mode = MANUAL,
      cfg_distribution_mode = AUTO_SEND,
      cfg_claim_timeout = 86400,
      cfg_delete_delay = 5,
      cfg_require_avatar = False,
      cfg_require_username = False,
      cfg_required_channel = None,
      cfg_allow_bots = False,
      cfg_member_filter = None,
      cfg_auto_draw_time = None,
      cfg_creator_id = senderId,
      cfg_unique_id = chatId @ ''_'' @ stringOfInt now,
      cfg_prize_warehouse = selectedWarehouse\<rparr>"

text \<open>
  The create subcommand from its fifth argument check on: \<open>args\<close> are the words after the
  command name (\<open>args ! 0\<close> is "create"), at least five of them.
\<close>

definition createFromArgs ::
  "(string \<Rightarrow> int option) \<Rightarrow> int \<Rightarrow> string \<Rightarrow> string \<Rightarrow> string list \<Rightarrow> database
     \<Rightarrow> create_reply \<times> database" where
  "createFromArgs parseInt now chatId senderId args d =
     (let title = args ! 1;
          keyword = args ! 2;
          warehouseIdentifier = (if 5 < length args \<and> args ! 5 \<noteq> [] then args ! 5 else ''default'')
      in case (parseInt (args ! 3), parseInt (args ! 4)) of
           (Some maxParticipants, Some winnerCount) \<Rightarrow>
             if maxParticipants < winnerCount then (InvalidNumbers, d)
             else
               (case getWarehouseByNameOrIndex parseInt warehouseIdentifier (getPrizeWarehouses d) of
                  None \<Rightarrow> (WarehouseNotFound, d)
                | Some selectedWarehouse \<Rightarrow>
                    if selectedWarehouse = [] then (WarehouseNotFound, d)
                    else if getWarehousePrizes d selectedWarehouse = [] then (WarehouseHasNoPrizes, d)
                    else
                      (case getActiveLottery d chatId of
                         Some existingLottery \<Rightarrow> (ActiveLotteryExists, d)
                       | None \<Rightarrow>
                           (case createLotteryConfig now d
                                   (createConfig now chatId senderId title keyword
                                      maxParticipants winnerCount selectedWarehouse) of
                              Inl err \<Rightarrow> (CreateFailed, d)
                            | Inr (lotteryId, d') \<Rightarrow> (Created lotteryId, d'))))
         | _ \<Rightarrow> (InvalidNumbers, d))"

definition lotteryCreate ::
  "(string \<Rightarrow> int option) \<Rightarrow> int \<Rightarrow> string \<Rightarrow> string \<Rightarrow> string list \<Rightarrow> database
     \<Rightarrow> create_reply \<times> database" where
  "lotteryCreate parseInt now chatId senderId args d =
     (let isListCommand =
            (length args = 1 \<or> (length args = 2 \<and> toLowerCase (args ! 1) = ''list''));
          isSavedMessages = (chatId = senderId)
      in if isSavedMessages \<and> \<not> isListCommand then (SavedMessagesForbidden, d)
         else if length args < 2 then (MissingArguments, d)
         else if isListCommand
           then (if getAllWarehousesWithPrizes d = [] then (WarehouseListEmpty, d)
                 else (WarehouseListShown, d))
         else if length args < 5 then (NotEnoughArguments, d)
         else createFromArgs parseInt now chatId senderId args d)"

section \<open>Concrete scenarios\<close>

text \<open>
  The data of the scenarios the theorems are run on: a lottery row as the create
  subcommand stores it (with the given id, limits, distribution mode and claim timeout),
  one prize item of warehouse "w1", an otherwise empty database, users without display
  names, and surroundings in which every send goes through and Math.random() returns 0.
\<close>

definition scenarioLottery :: "int \<Rightarrow> int \<Rightarrow> int \<Rightarrow> DistributionMode \<Rightarrow> int \<Rightarrow> lottery_row" where
  "scenarioLottery lotteryId maxParticipants winnerCount mode claimTimeout =
     \<lparr>lc_id = lotteryId, lc_chat_id = ''-1001'', lc_title = ''raffle'', lc_keyword = ''join'',
      lc_max_participants = maxParticipants, lc_winner_count = winnerCount,
      lc_mode = MANUAL, lc_distribution_mode = mode,
      lc_claim_timeout = Some claimTimeout, lc_delete_delay = Some 5,
      lc_require_avatar = False, lc_require_username = False, lc_required_channel = None,
      lc_prize_warehouse = Some ''w1'', lc_allow_bots = False, lc_member_filter = None,
      lc_auto_draw_time = None, lc_created_at = 0, lc_status = ''active'',
      lc_creator_id = ''42'', lc_unique_id = ''-1001_0''\<rparr>"

definition scenarioPrize :: "int \<Rightarrow> prize_row" where
  "scenarioPrize stock =
     \<lparr>pw_id = 1, pw_warehouse_name = ''w1'', pw_prize_text = ''voucher'',
      pw_stock_count = stock, pw_order_index = 1, pw_created_at = 0\<rparr>"

definition scenarioDb :: "lottery_row list \<Rightarrow> prize_row list \<Rightarrow> database" where
  "scenarioDb lotteries prizes =
     \<lparr>lottery_config = lotteries, lottery_participants = [], lottery_winners = [],
      prize_warehouse = prizes, seq_config = int (length lotteries), seq_participants = 0,
      seq_winners = 0, seq_prizes = int (length prizes)\<rparr>"

definition scenarioUser :: "string \<Rightarrow> userInfo" where
  "scenarioUser uid = \<lparr>user_id = uid, username = None, first_name = None, last_name = None\<rparr>"

definition scenarioEnv :: "int \<Rightarrow> env" where
  "scenarioEnv now =
     \<lparr>env_now = now, env_random = (\<lambda>i. 0), env_dm_ok = (\<lambda>u. True), env_chat_ok = True\<rparr>"

text \<open>
  Scenario A: a lottery of at most 3 participants and 2 winners, in the auto-send mode;
  u1, u2 and u3 have joined. The first two of them alone make the lottery of scenarioTwo.
\<close>

definition scenarioA :: database where
  "scenarioA =
     admissions (scenarioDb [scenarioLottery 1 3 2 AUTO_SEND 86400] [scenarioPrize 1])
       [(1, 1, scenarioUser ''u1''), (2, 1, scenarioUser ''u2''), (3, 1, scenarioUser ''u3'')]"

definition scenarioTwo :: database where
  "scenarioTwo =
     admissions (scenarioDb [scenarioLottery 1 3 2 AUTO_SEND 86400] [scenarioPrize 1])
       [(1, 1, scenarioUser ''u1''), (2, 1, scenarioUser ''u2'')]"

text \<open>
  Scenario D: claim mode with a timeout of 3600 seconds; u1 and u2 win at time 0 and u2
  is marked as claimed.
\<close>

definition scenarioD :: database where
  "scenarioD =
     applyOp
       (distributeTransaction 0 (scenarioLottery 1 5 2 CLAIM 3600)
          [\<lparr>lp_id = 1, lp_lottery_id = 1, lp_user_id = ''u1'', lp_username = None,
            lp_first_name = None, lp_last_name = None, lp_joined_at = 0\<rparr>,
           \<lparr>lp_id = 2, lp_lottery_id = 1, lp_user_id = ''u2'', lp_username = None,
            lp_first_name = None, lp_last_name = None, lp_joined_at = 0\<rparr>]
          (scenarioDb [scenarioLottery 1 5 2 CLAIM 3600] [scenarioPrize 1]))
       (MarkClaimed 0 1 ''u2'')"

text \<open>A database with two lotteries: lottery 1 is full (u1), lottery 2 has room and holds u1.\<close>

definition scenarioFullAndOpen :: database where
  "scenarioFullAndOpen =
     admissions
       (scenarioDb [scenarioLottery 1 1 1 AUTO_SEND 86400, scenarioLottery 2 2 1 AUTO_SEND 86400] [])
       [(1, 1, scenarioUser ''u1''), (2, 2, scenarioUser ''u1'')]"

text \<open>A parseInt for the texts of the create scenario.\<close>

definition scenarioParseInt :: "string \<Rightarrow> int option" where
  "scenarioParseInt s =
     (if s = ''100'' then Some 100 else if s = ''5'' then Some 5 else if s = ''1'' then Some 1
      else None)"

text \<open>
  The database after the operator's draw command on the lottery of scenarioTwo.
\<close>

definition scenarioDrawn :: database where
  "scenarioDrawn = snd (lotteryDraw (scenarioEnv 10) ''-1001'' scenarioTwo)"

text \<open>
  A join message in chat -1001 from a sender without display names, a resolver that
  finds every avatar and every membership, and a participant row of lottery 1.
\<close>

definition scenarioMessage :: "string \<Rightarrow> string \<Rightarrow> bool \<Rightarrow> join_message" where
  "scenarioMessage uid body isBot =
     \<lparr>jm_message = body, jm_has_senderId = True, jm_has_client = True, jm_chatId = Some ''-1001'',
      jm_sender = Some \<lparr>sender_id = uid, sender_bot = isBot, sender_username = None,
                        sender_firstName = None, sender_lastName = None\<rparr>\<rparr>"

definition scenarioResolver :: resolver where
  "scenarioResolver = \<lparr>res_avatar = (\<lambda>u. AvatarPresent), res_channel = (\<lambda>c u. Member)\<rparr>"

definition scenarioParticipant :: "int \<Rightarrow> string \<Rightarrow> participant_row" where
  "scenarioParticipant k uid =
     \<lparr>lp_id = k, lp_lottery_id = 1, lp_user_id = uid, lp_username = None,
      lp_first_name = None, lp_last_name = None, lp_joined_at = k\<rparr>"

section \<open>Evaluation of the scenarios\<close>

lemmas scenario_defs = scenarioLottery_def scenarioPrize_def scenarioDb_def scenarioUser_def
  scenarioEnv_def

lemmas admission_defs = addParticipantToLottery_def addParticipantTransaction_def
  insertParticipant_def countParticipants_def participantExists_def or_null_def Let_def

lemmas distribution_defs = assignPrize_def insertWinner_def getNextAvailablePrize_def
  getWarehousePrizes_def warehouseOf_def claimTimeoutMs_def consumePrize_def consumable_def

lemmas draw_defs = performLotteryDraw_def getLotteryParticipants_def selectWinners_def
  fisherYates_def slice0_def distributePrizes_def sendPrizeToWinner_def getLotteryWinners_def
  markCompleted_def

lemmas winner_op_defs = sendPrizeToWinner_def updateWinnerStatusByUser_def expireOldClaims_def
  expirable_def statuses_def

lemmas handler_defs = handleEnhancedLotteryJoin_def joinTarget_def joinWithLottery_def
  joinAndAutoDraw_def validateUserConditions_def usernameCheck_def channelCheck_def
  getActiveLottery_def scenarioMessage_def scenarioResolver_def

section \<open>Prize inventory: consume\<close>

lemma consumePrize_nonneg_step:
  "\<forall>r\<in>set (prize_warehouse d). 0 \<le> pw_stock_count r \<Longrightarrow>
   \<forall>r\<in>set (prize_warehouse (snd (consumePrize d prizeId))). 0 \<le> pw_stock_count r"
  by (auto simp: consumePrize_def consumable_def)

lemma consumeAll_nonneg:
  "\<forall>r\<in>set (prize_warehouse d). 0 \<le> pw_stock_count r \<Longrightarrow>
   \<forall>r\<in>set (prize_warehouse (consumeAll d ids)). 0 \<le> pw_stock_count r"
proof (induction ids arbitrary: d)
  case Nil
  then show ?case by simp
next
  case (Cons a ids)
  have "\<forall>r\<in>set (prize_warehouse (snd (consumePrize d a))). 0 \<le> pw_stock_count r"
    using Cons.prems by (rule consumePrize_nonneg_step)
  then show ?case using Cons.IH by simp
qed

lemma consumePrize_unchanged:
  "\<not> list_ex (consumable prizeId) (prize_warehouse d) \<Longrightarrow> consumePrize d prizeId = (False, d)"
proof -
  assume a: "\<not> list_ex (consumable prizeId) (prize_warehouse d)"
  then have f: "filter (consumable prizeId) (prize_warehouse d) = []"
    by (simp add: list_ex_iff filter_empty_conv)
  have m: "map (\<lambda>r. if consumable prizeId r then r\<lparr>pw_stock_count := pw_stock_count r - 1\<rparr> else r)
            (prize_warehouse d) = prize_warehouse d"
    using a by (simp add: list_ex_iff map_idI)
  show ?thesis by (simp add: consumePrize_def f m)
qed

lemma find_map_stock:
  "find (\<lambda>r. pw_id r = i) (map (\<lambda>r. if consumable k r then r\<lparr>pw_stock_count := pw_stock_count r - 1\<rparr> else r) xs)
   = map_option (\<lambda>r. if consumable k r then r\<lparr>pw_stock_count := pw_stock_count r - 1\<rparr> else r)
       (find (\<lambda>r. pw_id r = i) xs)"
  by (induction xs) (auto simp: consumable_def)

lemma stockOf_consume:
  "stockOf (snd (consumePrize d k)) i =
     map_option (\<lambda>s. if i = k \<and> 0 < s then s - 1 else s) (stockOf d i)"
proof (cases "find (\<lambda>r. pw_id r = i) (prize_warehouse d)")
  case None
  then show ?thesis by (simp add: stockOf_def consumePrize_def find_map_stock)
next
  case (Some r)
  then have "pw_id r = i" by (auto simp: find_Some_iff)
  have "stockOf (snd (consumePrize d k)) i =
          Some (pw_stock_count (if consumable k r then r\<lparr>pw_stock_count := pw_stock_count r - 1\<rparr> else r))"
    using Some by (simp add: stockOf_def consumePrize_def find_map_stock)
  moreover have "stockOf d i = Some (pw_stock_count r)"
    using Some by (simp add: stockOf_def)
  ultimately show ?thesis
    using \<open>pw_id r = i\<close> by (auto simp: consumable_def)
qed

lemma find_distinct_id:
  "distinct (map pw_id xs) \<Longrightarrow> r \<in> set xs \<Longrightarrow> find (\<lambda>x. pw_id x = pw_id r) xs = Some r"
  by (induction xs) (auto simp: image_iff)

lemma list_ex_consumable:
  assumes "distinct (map pw_id (prize_warehouse d))"
  shows "list_ex (consumable k) (prize_warehouse d) = (\<exists>s. stockOf d k = Some s \<and> 0 < s)"
proof
  assume "list_ex (consumable k) (prize_warehouse d)"
  then obtain r where r: "r \<in> set (prize_warehouse d)" "pw_id r = k" "0 < pw_stock_count r"
    by (auto simp: list_ex_iff consumable_def)
  then have "find (\<lambda>x. pw_id x = k) (prize_warehouse d) = Some r"
    using find_distinct_id[OF assms r(1)] by simp
  then show "\<exists>s. stockOf d k = Some s \<and> 0 < s" using r by (simp add: stockOf_def)
next
  assume "\<exists>s. stockOf d k = Some s \<and> 0 < s"
  then obtain r where "find (\<lambda>x. pw_id x = k) (prize_warehouse d) = Some r" "0 < pw_stock_count r"
    by (auto simp: stockOf_def)
  then have "r \<in> set (prize_warehouse d) \<and> consumable k r"
    by (auto simp: find_Some_iff consumable_def)
  then show "list_ex (consumable k) (prize_warehouse d)" by (auto simp: list_ex_iff)
qed

lemma fst_consumePrize: "fst (consumePrize d k) = list_ex (consumable k) (prize_warehouse d)"
  by (auto simp: consumePrize_def list_ex_iff filter_empty_conv)

text \<open>
  C4: consumePrize succeeds only on an item whose stock is positive, and then lowers that
  item's stock by exactly one and no other item's; on an item without stock, or on no
  item, it returns false and changes nothing. The check and the decrement are the one
  UPDATE statement. After any sequence of consume calls no stock is negative (none was
  before: stocks are created non-negative).
\<close>

theorem consume_checks_and_decrements:
  assumes "distinct (map pw_id (prize_warehouse d))"
  shows "(case stockOf d prizeId of
            None \<Rightarrow> consumePrize d prizeId = (False, d)
          | Some s \<Rightarrow>
              if 0 < s
              then fst (consumePrize d prizeId) \<and>
                   stockOf (snd (consumePrize d prizeId)) prizeId = Some (s - 1)
              else consumePrize d prizeId = (False, d))
       \<and> (other \<noteq> prizeId \<longrightarrow> stockOf (snd (consumePrize d prizeId)) other = stockOf d other)
       \<and> ((\<forall>r\<in>set (prize_warehouse d). 0 \<le> pw_stock_count r) \<longrightarrow>
            (\<forall>r\<in>set (prize_warehouse (consumeAll d ids)). 0 \<le> pw_stock_count r))"
proof (intro conjI impI)
  show "case stockOf d prizeId of
            None \<Rightarrow> consumePrize d prizeId = (False, d)
          | Some s \<Rightarrow>
              if 0 < s
              then fst (consumePrize d prizeId) \<and>
                   stockOf (snd (consumePrize d prizeId)) prizeId = Some (s - 1)
              else consumePrize d prizeId = (False, d)"
  proof (cases "stockOf d prizeId")
    case None
    then have "\<not> list_ex (consumable prizeId) (prize_warehouse d)"
      using list_ex_consumable[OF assms, of prizeId] by simp
    then show ?thesis using None by (simp add: consumePrize_unchanged)
  next
    case (Some s)
    show ?thesis
    proof (cases "0 < s")
      case True
      then have "list_ex (consumable prizeId) (prize_warehouse d)"
        using list_ex_consumable[OF assms, of prizeId] Some by simp
      then show ?thesis using Some True by (simp add: fst_consumePrize stockOf_consume)
    next
      case False
      then have "\<not> list_ex (consumable prizeId) (prize_warehouse d)"
        using list_ex_consumable[OF assms, of prizeId] Some by simp
      then show ?thesis using Some False by (simp add: consumePrize_unchanged)
    qed
  qed
next
  assume "other \<noteq> prizeId"
  then show "stockOf (snd (consumePrize d prizeId)) other = stockOf d other"
    by (simp add: stockOf_consume option.map_ident)
next
  assume "\<forall>r\<in>set (prize_warehouse d). 0 \<le> pw_stock_count r"
  then show "\<forall>r\<in>set (prize_warehouse (consumeAll d ids)). 0 \<le> pw_stock_count r"
    by (rule consumeAll_nonneg)
qed

theorem consume_checks_and_decrements_witness:
  "distinct (map pw_id (prize_warehouse (scenarioDb [] [scenarioPrize 1])))
   \<and> stockOf (scenarioDb [] [scenarioPrize 1]) 1 = Some 1
   \<and> consumePrize (scenarioDb [] [scenarioPrize 1]) 1 = (True, scenarioDb [] [scenarioPrize 0])
   \<and> consumePrize (scenarioDb [] [scenarioPrize 0]) 1 = (False, scenarioDb [] [scenarioPrize 0])
   \<and> stockOf (consumeAll (scenarioDb [] [scenarioPrize 1]) [1, 1, 1]) 1 = Some 0"
  using consume_checks_and_decrements [of "scenarioDb [] [scenarioPrize 1]" 1 2 "[1, 1, 1]"]
    consume_checks_and_decrements [of "scenarioDb [] [scenarioPrize 0]" 1 2 "[]"]
  by (simp add: scenario_defs consumePrize_def consumable_def stockOf_def)

section \<open>Participant ledger: capacity, duplicates, rejection reasons\<close>

lemma participantExists_iff:
  "participantExists d lid uid = (uid \<in> set (participantIds d lid))"
  by (auto simp: participantExists_def participantIds_def list_ex_iff)

lemma countParticipants_length:
  "countParticipants d lid = int (length (participantIds d lid))"
  by (simp add: countParticipants_def participantIds_def)

lemma admit_rejected:
  "addParticipantTransaction now d lid p = Inl e \<Longrightarrow> addParticipantToLottery now d lid p = (False, d)"
  by (simp add: addParticipantToLottery_def)

lemma admit_accepted:
  assumes "addParticipantTransaction now d lid p = Inr d'"
  shows "addParticipantToLottery now d lid p = (True, d')"
    and "lottery_config d' = lottery_config d"
    and "participantIds d' lid' = participantIds d lid' @ (if lid' = lid then [user_id p] else [])"
    and "user_id p \<notin> set (participantIds d lid)"
    and "\<exists>l. find (\<lambda>l. lc_id l = lid) (lottery_config d) = Some l
            \<and> countParticipants d lid < lc_max_participants l"
proof -
  show "addParticipantToLottery now d lid p = (True, d')"
    using assms by (simp add: addParticipantToLottery_def)
  from assms obtain l where l: "find (\<lambda>l. lc_id l = lid) (lottery_config d) = Some l"
      and lt: "countParticipants d lid < lc_max_participants l"
      and ne: "\<not> participantExists d lid (user_id p)"
      and ins: "insertParticipant now d lid p = Inr d'"
    by (auto simp: addParticipantTransaction_def Let_def split: option.splits if_splits)
  from l lt show "\<exists>l. find (\<lambda>l. lc_id l = lid) (lottery_config d) = Some l
            \<and> countParticipants d lid < lc_max_participants l" by blast
  from ne show "user_id p \<notin> set (participantIds d lid)" by (simp add: participantExists_iff)
  from ins ne have d': "d' = d\<lparr>lottery_participants := lottery_participants d @
                  [\<lparr>lp_id = seq_participants d + 1, lp_lottery_id = lid,
                    lp_user_id = user_id p,
                    lp_username = or_null (username p),
                    lp_first_name = or_null (first_name p),
                    lp_last_name = or_null (last_name p),
                    lp_joined_at = now\<rparr>],
                seq_participants := seq_participants d + 1\<rparr>"
    by (simp add: insertParticipant_def)
  show "lottery_config d' = lottery_config d" by (simp add: d')
  show "participantIds d' lid' = participantIds d lid' @ (if lid' = lid then [user_id p] else [])"
    by (simp add: d' participantIds_def)
qed

lemma admit_step_config:
  "lottery_config (snd (addParticipantToLottery now d lid p)) = lottery_config d"
proof (cases "addParticipantTransaction now d lid p")
  case (Inl e)
  then show ?thesis by (simp add: admit_rejected)
next
  case (Inr d')
  then show ?thesis by (simp add: admit_accepted(1,2))
qed

lemma admit_step_capacity:
  assumes "find (\<lambda>l. lc_id l = lid) (lottery_config d) = Some l"
      and "countParticipants d lid \<le> lc_max_participants l"
  shows "countParticipants (snd (addParticipantToLottery now d lid2 p)) lid \<le> lc_max_participants l"
proof (cases "addParticipantTransaction now d lid2 p")
  case (Inl e)
  then show ?thesis using assms by (simp add: admit_rejected)
next
  case (Inr d')
  note acc = admit_accepted[OF Inr]
  show ?thesis
  proof (cases "lid2 = lid")
    case True
    from acc(5) assms(1) True have "countParticipants d lid < lc_max_participants l" by auto
    then show ?thesis using acc(1) acc(3)[of lid] True by (simp add: countParticipants_length)
  next
    case False
    then show ?thesis using acc(1) acc(3)[of lid] assms(2) by (simp add: countParticipants_length)
  qed
qed

lemma admissions_config: "lottery_config (admissions d calls) = lottery_config d"
  by (induction d calls rule: admissions.induct) (simp_all add: admit_step_config)

lemma admissions_capacity:
  assumes "find (\<lambda>l. lc_id l = lid) (lottery_config d) = Some l"
      and "countParticipants d lid \<le> lc_max_participants l"
  shows "countParticipants (admissions d calls) lid \<le> lc_max_participants l"
  using assms
proof (induction d calls rule: admissions.induct)
  case (1 d)
  then show ?case by simp
next
  case (2 d now lotteryId participant calls)
  let ?d1 = "snd (addParticipantToLottery now d lotteryId participant)"
  have "find (\<lambda>l. lc_id l = lid) (lottery_config ?d1) = Some l"
    using "2.prems"(1) by (simp add: admit_step_config)
  moreover have "countParticipants ?d1 lid \<le> lc_max_participants l"
    using "2.prems" by (rule admit_step_capacity)
  ultimately show ?case using "2.IH" by simp
qed

lemma admit_full:
  assumes "find (\<lambda>l. lc_id l = lid) (lottery_config d) = Some l"
      and "lc_max_participants l \<le> countParticipants d lid"
  shows "addParticipantTransaction now d lid p = Inl LotteryFullOrNotFound"
  using assms by (simp add: addParticipantTransaction_def)

text \<open>
  C3: for a lottery whose participant count is within its max\_participants (as it is when
  the lottery is created, with no participants), the count stays within the limit after
  every sequence of admission calls; and an admission that finds the count at or above
  the limit throws the full-lottery error, returns false and inserts no row.
\<close>

theorem capacity_never_exceeded:
  assumes "find (\<lambda>l. lc_id l = lotteryId) (lottery_config d) = Some lottery"
      and "countParticipants d lotteryId \<le> lc_max_participants lottery"
  shows "countParticipants (admissions d calls) lotteryId \<le> lc_max_participants lottery
       \<and> (lc_max_participants lottery \<le> countParticipants d lotteryId \<longrightarrow>
            addParticipantTransaction now d lotteryId participant = Inl LotteryFullOrNotFound
          \<and> addParticipantToLottery now d lotteryId participant = (False, d))"
proof (intro conjI impI)
  show "countParticipants (admissions d calls) lotteryId \<le> lc_max_participants lottery"
    using assms by (rule admissions_capacity)
next
  assume "lc_max_participants lottery \<le> countParticipants d lotteryId"
  with assms(1) show "addParticipantTransaction now d lotteryId participant = Inl LotteryFullOrNotFound"
    by (rule admit_full)
  then show "addParticipantToLottery now d lotteryId participant = (False, d)"
    by (rule admit_rejected)
qed

theorem capacity_never_exceeded_witness:
  "find (\<lambda>l. lc_id l = 1) (lottery_config scenarioA) = Some (scenarioLottery 1 3 2 AUTO_SEND 86400)
   \<and> countParticipants scenarioA 1 = 3
   \<and> countParticipants (admissions scenarioA [(4, 1, scenarioUser ''u4'')]) 1 = 3
   \<and> addParticipantTransaction 4 scenarioA 1 (scenarioUser ''u4'') = Inl LotteryFullOrNotFound
   \<and> addParticipantToLottery 4 scenarioA 1 (scenarioUser ''u4'') = (False, scenarioA)"
  using capacity_never_exceeded [of 1 scenarioA "scenarioLottery 1 3 2 AUTO_SEND 86400"
      "[(4, 1, scenarioUser ''u4'')]" 4 "scenarioUser ''u4''"]
  by (simp add: scenarioA_def scenario_defs admission_defs)

lemma admit_step_ids:
  "\<exists>new. participantIds (snd (addParticipantToLottery now d lid2 p)) lid = participantIds d lid @ new
     \<and> (distinct (participantIds d lid) \<longrightarrow> distinct (participantIds d lid @ new))"
proof (cases "addParticipantTransaction now d lid2 p")
  case (Inl e)
  then show ?thesis by (simp add: admit_rejected)
next
  case (Inr d')
  note acc = admit_accepted[OF Inr]
  show ?thesis using acc(1) acc(3)[of lid] acc(4) by auto
qed

lemma admissions_ids:
  "\<exists>new. participantIds (admissions d calls) lid = participantIds d lid @ new
     \<and> (distinct (participantIds d lid) \<longrightarrow> distinct (participantIds d lid @ new))"
proof (induction d calls rule: admissions.induct)
  case (1 d)
  then show ?case by simp
next
  case (2 d now lotteryId participant calls)
  let ?d1 = "snd (addParticipantToLottery now d lotteryId participant)"
  obtain n1 where n1: "participantIds ?d1 lid = participantIds d lid @ n1"
    "distinct (participantIds d lid) \<longrightarrow> distinct (participantIds d lid @ n1)"
    using admit_step_ids by blast
  obtain n2 where n2: "participantIds (admissions ?d1 calls) lid = participantIds ?d1 lid @ n2"
    "distinct (participantIds ?d1 lid) \<longrightarrow> distinct (participantIds ?d1 lid @ n2)"
    using "2.IH" by blast
  have "participantIds (admissions d ((now, lotteryId, participant) # calls)) lid
          = participantIds d lid @ (n1 @ n2)"
    using n1(1) n2(1) by simp
  moreover have "distinct (participantIds d lid) \<longrightarrow> distinct (participantIds d lid @ (n1 @ n2))"
    using n1 n2(2) by simp
  ultimately show ?case by blast
qed

text \<open>
  C5, as amended: once a user is admitted to a lottery, every later admission of the same
  user to it is rejected and inserts no row, and admissions keep the user ids of a
  lottery's rows distinct. The error thrown is the duplicate one while the lottery has room, and the
  full-lottery one once the count has reached the limit, since the capacity check comes
  first.
\<close>

theorem second_admission_rejected:
  assumes "addParticipantToLottery now d lotteryId participant = (True, d1)"
      and "user_id again = user_id participant"
      and "find (\<lambda>l. lc_id l = lotteryId) (lottery_config d) = Some lottery"
  shows "addParticipantToLottery now' (admissions d1 calls) lotteryId again
           = (False, admissions d1 calls)
       \<and> addParticipantTransaction now' (admissions d1 calls) lotteryId again
           = Inl (if countParticipants (admissions d1 calls) lotteryId < lc_max_participants lottery
                  then UserAlreadyParticipated else LotteryFullOrNotFound)
       \<and> (distinct (participantIds d0 lotteryId) \<longrightarrow>
            distinct (participantIds (admissions d0 calls) lotteryId))"
proof -
  let ?d2 = "admissions d1 calls"
  from assms(1) obtain d' where tr: "addParticipantTransaction now d lotteryId participant = Inr d'"
    by (auto simp: addParticipantToLottery_def split: sum.splits)
  note acc = admit_accepted[OF tr]
  from acc(1) assms(1) have d1: "d1 = d'" by simp
  have ids1: "participantIds d1 lotteryId = participantIds d lotteryId @ [user_id participant]"
    using acc(3)[of lotteryId] d1 by simp
  obtain new where new: "participantIds ?d2 lotteryId = participantIds d1 lotteryId @ new"
    "distinct (participantIds d1 lotteryId) \<longrightarrow> distinct (participantIds d1 lotteryId @ new)"
    using admissions_ids by blast
  have ex: "participantExists ?d2 lotteryId (user_id again)"
    using new(1) ids1 assms(2) by (simp add: participantExists_iff)
  have cfg: "find (\<lambda>l. lc_id l = lotteryId) (lottery_config ?d2) = Some lottery"
    using assms(3) acc(2) d1 by (simp add: admissions_config)
  have tr2: "addParticipantTransaction now' ?d2 lotteryId again
           = Inl (if countParticipants ?d2 lotteryId < lc_max_participants lottery
                  then UserAlreadyParticipated else LotteryFullOrNotFound)"
    using ex cfg by (simp add: addParticipantTransaction_def)
  have "distinct (participantIds d0 lotteryId) \<longrightarrow>
          distinct (participantIds (admissions d0 calls) lotteryId)"
    using admissions_ids[of d0 calls lotteryId] by auto
  with tr2 admit_rejected[OF tr2] show ?thesis by blast
qed

theorem second_admission_rejected_witness:
  "addParticipantToLottery 2 (admissions (scenarioDb [scenarioLottery 1 3 2 AUTO_SEND 86400] [scenarioPrize 1])
        [(1, 1, scenarioUser ''u1'')]) 1 (scenarioUser ''u2'') = (True, scenarioTwo)
   \<and> addParticipantTransaction 3 scenarioTwo 1 (scenarioUser ''u2'') = Inl UserAlreadyParticipated
   \<and> addParticipantToLottery 3 scenarioTwo 1 (scenarioUser ''u2'') = (False, scenarioTwo)
   \<and> addParticipantTransaction 4 scenarioA 1 (scenarioUser ''u2'') = Inl LotteryFullOrNotFound
   \<and> participantIds scenarioA 1 = [''u1'', ''u2'', ''u3'']"
  using second_admission_rejected [of 2 "admissions (scenarioDb [scenarioLottery 1 3 2 AUTO_SEND 86400] [scenarioPrize 1])
        [(1, 1, scenarioUser ''u1'')]" 1 "scenarioUser ''u2''" scenarioTwo "scenarioUser ''u2''"
        "scenarioLottery 1 3 2 AUTO_SEND 86400" 3 "[]"]
    second_admission_rejected [of 2 "admissions (scenarioDb [scenarioLottery 1 3 2 AUTO_SEND 86400] [scenarioPrize 1])
        [(1, 1, scenarioUser ''u1'')]" 1 "scenarioUser ''u2''" scenarioTwo "scenarioUser ''u2''"
        "scenarioLottery 1 3 2 AUTO_SEND 86400" 4 "[(3, 1, scenarioUser ''u3'')]" scenarioTwo]
  by (simp add: scenarioA_def scenarioTwo_def scenario_defs admission_defs participantIds_def)

text \<open>
  The claim as stated fails on a lottery of one participant: the second admission of u1
  is rejected as full, not as a duplicate.
\<close>

theorem duplicate_on_full_lottery_reports_full:
  "addParticipantToLottery 1 (scenarioDb [scenarioLottery 1 1 1 AUTO_SEND 86400] []) 1 (scenarioUser ''u1'')
     = (True, admissions (scenarioDb [scenarioLottery 1 1 1 AUTO_SEND 86400] []) [(1, 1, scenarioUser ''u1'')])
   \<and> addParticipantTransaction 2
        (admissions (scenarioDb [scenarioLottery 1 1 1 AUTO_SEND 86400] []) [(1, 1, scenarioUser ''u1'')])
        1 (scenarioUser ''u1'')
     = Inl LotteryFullOrNotFound"
  by (simp add: scenario_defs admission_defs)

text \<open>
  C9, as amended: addParticipantToLottery returns only true or false, so a rejection for
  a full or missing lottery and one for a duplicate return the same result from it. The
  reasons are told apart by the join handler around it: for a message that is a join of
  an active lottery from a sender who is not a bot, a repeated join gets the duplicate
  reply, the message of a user who fails an eligibility check is deleted, and a join
  that the admission rejects ends silently; the database is unchanged in all three.
\<close>

theorem handler_tells_reasons_apart:
  assumes "joinTarget trim msg d = Some activeLottery"
      and "jm_sender msg = Some who"
      and "\<not> sender_bot who"
      and "info = \<lparr>user_id = sender_id who, username = or_null (sender_username who),
                    first_name = or_null (sender_firstName who),
                    last_name = or_null (sender_lastName who)\<rparr>"
      and "repeated = list_ex (\<lambda>p. lp_user_id p = sender_id who)
                        (getLotteryParticipants d (lc_id activeLottery))"
  shows "(repeated \<longrightarrow> handleEnhancedLotteryJoin trim r e msg d = (DuplicateReply, d))
       \<and> (\<not> repeated \<and> validateUserConditions r who activeLottery = Some why \<longrightarrow>
            handleEnhancedLotteryJoin trim r e msg d = (DeleteMessage, d))
       \<and> (\<not> repeated \<and> validateUserConditions r who activeLottery = None
            \<and> addParticipantTransaction (env_now e) d (lc_id activeLottery) info = Inl reason \<longrightarrow>
            handleEnhancedLotteryJoin trim r e msg d = (Silent, d))
       \<and> (addParticipantTransaction now d lotteryId participant = Inl reason1
            \<and> addParticipantTransaction now' d lotteryId' participant' = Inl reason2 \<longrightarrow>
            addParticipantToLottery now d lotteryId participant = (False, d)
            \<and> addParticipantToLottery now' d lotteryId' participant' = (False, d))"
proof (intro conjI impI)
  assume "repeated"
  then show "handleEnhancedLotteryJoin trim r e msg d = (DuplicateReply, d)"
    using assms by (simp add: handleEnhancedLotteryJoin_def joinWithLottery_def)
next
  assume "\<not> repeated \<and> validateUserConditions r who activeLottery = Some why"
  then show "handleEnhancedLotteryJoin trim r e msg d = (DeleteMessage, d)"
    using assms by (simp add: handleEnhancedLotteryJoin_def joinWithLottery_def)
next
  assume a: "\<not> repeated \<and> validateUserConditions r who activeLottery = None
            \<and> addParticipantTransaction (env_now e) d (lc_id activeLottery) info = Inl reason"
  then have "joinAndAutoDraw e activeLottery info d = (False, None, d)"
    by (simp add: joinAndAutoDraw_def admit_rejected)
  then show "handleEnhancedLotteryJoin trim r e msg d = (Silent, d)"
    using a assms by (simp add: handleEnhancedLotteryJoin_def joinWithLottery_def)
next
  assume "addParticipantTransaction now d lotteryId participant = Inl reason1
            \<and> addParticipantTransaction now' d lotteryId' participant' = Inl reason2"
  then show "addParticipantToLottery now d lotteryId participant = (False, d)"
    and "addParticipantToLottery now' d lotteryId' participant' = (False, d)"
    by (simp_all add: admit_rejected)
qed

theorem handler_tells_reasons_apart_witness:
  "joinTarget (\<lambda>s. s) (scenarioMessage ''u2'' ''join'' False) scenarioFullAndOpen
     = Some (scenarioLottery 1 1 1 AUTO_SEND 86400)
   \<and> addParticipantTransaction 9 scenarioFullAndOpen 1 (scenarioUser ''u2'') = Inl LotteryFullOrNotFound
   \<and> handleEnhancedLotteryJoin (\<lambda>s. s) scenarioResolver (scenarioEnv 9)
        (scenarioMessage ''u2'' ''join'' False) scenarioFullAndOpen = (Silent, scenarioFullAndOpen)
   \<and> handleEnhancedLotteryJoin (\<lambda>s. s) scenarioResolver (scenarioEnv 9)
        (scenarioMessage ''u1'' ''join'' False) scenarioFullAndOpen
       = (DuplicateReply, scenarioFullAndOpen)
   \<and> handleEnhancedLotteryJoin (\<lambda>s. s) scenarioResolver (scenarioEnv 9)
        (scenarioMessage ''u1'' ''join'' False)
        (scenarioDb [(scenarioLottery 1 3 2 AUTO_SEND 86400)\<lparr>lc_require_username := True\<rparr>] [])
       = (DeleteMessage,
          scenarioDb [(scenarioLottery 1 3 2 AUTO_SEND 86400)\<lparr>lc_require_username := True\<rparr>] [])"
  using handler_tells_reasons_apart [where trim = "\<lambda>s. s" and msg = "scenarioMessage ''u2'' ''join'' False"
      and d = scenarioFullAndOpen and activeLottery = "scenarioLottery 1 1 1 AUTO_SEND 86400"
      and who = "\<lparr>sender_id = ''u2'', sender_bot = False, sender_username = None,
                   sender_firstName = None, sender_lastName = None\<rparr>"
      and info = "scenarioUser ''u2''" and repeated = False and r = scenarioResolver
      and e = "scenarioEnv 9" and reason = LotteryFullOrNotFound]
    handler_tells_reasons_apart [where trim = "\<lambda>s. s" and msg = "scenarioMessage ''u1'' ''join'' False"
      and d = scenarioFullAndOpen and activeLottery = "scenarioLottery 1 1 1 AUTO_SEND 86400"
      and who = "\<lparr>sender_id = ''u1'', sender_bot = False, sender_username = None,
                   sender_firstName = None, sender_lastName = None\<rparr>"
      and info = "scenarioUser ''u1''" and repeated = True and r = scenarioResolver
      and e = "scenarioEnv 9"]
    handler_tells_reasons_apart [where trim = "\<lambda>s. s" and msg = "scenarioMessage ''u1'' ''join'' False"
      and d = "scenarioDb [(scenarioLottery 1 3 2 AUTO_SEND 86400)\<lparr>lc_require_username := True\<rparr>] []"
      and activeLottery = "(scenarioLottery 1 3 2 AUTO_SEND 86400)\<lparr>lc_require_username := True\<rparr>"
      and who = "\<lparr>sender_id = ''u1'', sender_bot = False, sender_username = None,
                   sender_firstName = None, sender_lastName = None\<rparr>"
      and info = "scenarioUser ''u1''" and repeated = False and r = scenarioResolver
      and e = "scenarioEnv 9" and why = UsernameRequired]
  by (simp add: scenarioFullAndOpen_def scenario_defs admission_defs handler_defs
      getLotteryParticipants_def)

text \<open>
  The claim as stated fails: from the admission, a rejection because the lottery is full
  and one as a duplicate return the same result; and from the handler, the join of u2 to
  the full lottery and the join of a bot both end silently.
\<close>

theorem rejection_reason_lost:
  "addParticipantTransaction 9 scenarioFullAndOpen 1 (scenarioUser ''u2'') = Inl LotteryFullOrNotFound
   \<and> addParticipantTransaction 9 scenarioFullAndOpen 2 (scenarioUser ''u1'') = Inl UserAlreadyParticipated
   \<and> addParticipantToLottery 9 scenarioFullAndOpen 1 (scenarioUser ''u2'')
       = addParticipantToLottery 9 scenarioFullAndOpen 2 (scenarioUser ''u1'')
   \<and> handleEnhancedLotteryJoin (\<lambda>s. s) scenarioResolver (scenarioEnv 9)
        (scenarioMessage ''u2'' ''join'' False) scenarioFullAndOpen = (Silent, scenarioFullAndOpen)
   \<and> handleEnhancedLotteryJoin (\<lambda>s. s) scenarioResolver (scenarioEnv 9)
        (scenarioMessage ''u2'' ''join'' True) scenarioFullAndOpen = (Silent, scenarioFullAndOpen)"
  by (simp add: scenarioFullAndOpen_def scenario_defs admission_defs handler_defs
      getLotteryParticipants_def)

section \<open>Winner records: expiry sweep and status transitions\<close>

text \<open>
  C8: the expiry sweep sets to expired exactly the records that are pending and whose
  expires\_at is before the current time, changing nothing else of them; every other
  record (not pending, or without expires\_at, or not yet past it) and every other table
  is left as it was.
\<close>

theorem expiry_sweep_frame:
  assumes "i < length (lottery_winners d)"
      and "w = lottery_winners d ! i"
      and "w' = lottery_winners (expireOldClaims now d) ! i"
  shows "length (lottery_winners (expireOldClaims now d)) = length (lottery_winners d)
       \<and> (lw_status w = PENDING \<and> (\<exists>t. lw_expires_at w = Some t \<and> t < now)
            \<longrightarrow> w' = w\<lparr>lw_status := EXPIRED\<rparr>)
       \<and> (lw_status w \<noteq> PENDING \<longrightarrow> w' = w)
       \<and> (lw_expires_at w = None \<longrightarrow> w' = w)
       \<and> ((\<exists>t. lw_expires_at w = Some t \<and> now \<le> t) \<longrightarrow> w' = w)
       \<and> lottery_config (expireOldClaims now d) = lottery_config d
       \<and> lottery_participants (expireOldClaims now d) = lottery_participants d
       \<and> prize_warehouse (expireOldClaims now d) = prize_warehouse d"
  using assms by (auto simp: expireOldClaims_def expirable_def)

theorem expiry_sweep_frame_witness:
  "statuses scenarioD = [PENDING, SENT]
   \<and> map lw_expires_at (lottery_winners scenarioD) = [Some 3600000, Some 3600000]
   \<and> statuses (expireOldClaims 3601000 scenarioD) = [EXPIRED, SENT]
   \<and> lottery_winners (expireOldClaims 3601000 scenarioD) ! 0
       = (lottery_winners scenarioD ! 0)\<lparr>lw_status := EXPIRED\<rparr>
   \<and> lottery_winners (expireOldClaims 3601000 scenarioD) ! 1 = lottery_winners scenarioD ! 1
   \<and> lottery_winners (expireOldClaims 3600000 scenarioD) ! 0 = lottery_winners scenarioD ! 0"
  using expiry_sweep_frame [of 0 scenarioD "lottery_winners scenarioD ! 0"
      "lottery_winners (expireOldClaims 3601000 scenarioD) ! 0" 3601000]
    expiry_sweep_frame [of 1 scenarioD "lottery_winners scenarioD ! 1"
      "lottery_winners (expireOldClaims 3601000 scenarioD) ! 1" 3601000]
    expiry_sweep_frame [of 0 scenarioD "lottery_winners scenarioD ! 0"
      "lottery_winners (expireOldClaims 3600000 scenarioD) ! 0" 3600000]
  by (simp add: scenarioD_def scenario_defs distribution_defs winner_op_defs or_null_def)

lemma applyOp_ids: "map lw_id (lottery_winners (applyOp d opn)) = map lw_id (lottery_winners d)"
  by (cases opn) (auto simp: winner_op_defs Let_def)

lemma applyOp_length: "length (lottery_winners (applyOp d opn)) = length (lottery_winners d)"
  using applyOp_ids[of d opn] by (metis length_map)

lemma applyOp_status:
  assumes "i < length (lottery_winners d)"
  shows "(statuses d ! i = SENT \<longrightarrow> statuses (applyOp d opn) ! i = SENT)
       \<and> (statuses d ! i = EXPIRED \<longrightarrow> statuses (applyOp d opn) ! i \<noteq> PENDING)"
  using assms by (cases opn) (auto simp: winner_op_defs Let_def)

lemma applyOps_ids: "map lw_id (lottery_winners (applyOps d ops)) = map lw_id (lottery_winners d)"
  by (induction d ops rule: applyOps.induct) (simp_all add: applyOp_ids)

lemma applyOps_length: "length (lottery_winners (applyOps d ops)) = length (lottery_winners d)"
  using applyOps_ids[of d ops] by (metis length_map)

lemma applyOps_status:
  assumes "i < length (lottery_winners d)"
  shows "(statuses d ! i = SENT \<longrightarrow> statuses (applyOps d ops) ! i = SENT)
       \<and> (statuses d ! i = EXPIRED \<longrightarrow> statuses (applyOps d ops) ! i \<noteq> PENDING)"
  using assms
proof (induction d ops rule: applyOps.induct)
  case (1 d)
  then show ?case by simp
next
  case (2 d opn ops)
  have len: "i < length (lottery_winners (applyOp d opn))"
    using "2.prems" by (simp add: applyOp_length)
  note step = applyOp_status[OF "2.prems", of opn]
  note rest = "2.IH"[OF len]
  have "statuses (applyOp d opn) ! i = SENT \<or> statuses (applyOp d opn) ! i = EXPIRED
        \<or> statuses (applyOp d opn) ! i = PENDING"
    by (cases "statuses (applyOp d opn) ! i") auto
  then show ?case using step rest by auto
qed

text \<open>
  C2, as amended: under every sequence of automatic sends, mark-claimed actions and
  expiry sweeps the records keep their identity, a sent record stays sent, an expired
  record never returns to pending, and the expiry sweep changes the status of pending
  records only. The send and the mark-claimed action write sent whatever the status was,
  so an expired record can still become sent.
\<close>

theorem status_never_returns:
  assumes "i < length (lottery_winners d)"
  shows "map lw_id (lottery_winners (applyOps d ops)) = map lw_id (lottery_winners d)
       \<and> (statuses d ! i = SENT \<longrightarrow> statuses (applyOps d ops) ! i = SENT)
       \<and> (statuses d ! i = EXPIRED \<longrightarrow> statuses (applyOps d ops) ! i \<noteq> PENDING)
       \<and> (statuses d ! i \<noteq> PENDING \<longrightarrow> statuses (applyOp d (ExpirySweep now)) ! i = statuses d ! i)"
proof -
  have "statuses d ! i \<noteq> PENDING \<longrightarrow> statuses (applyOp d (ExpirySweep now)) ! i = statuses d ! i"
    using assms by (auto simp: winner_op_defs)
  then show ?thesis using applyOps_ids[of d ops] applyOps_status[OF assms, of ops] by blast
qed

theorem status_never_returns_witness:
  "statuses scenarioD = [PENDING, SENT]
   \<and> statuses (applyOps scenarioD
        [ExpirySweep 3601000, MarkClaimed 3700000 1 ''u2'', ExpirySweep 3800000]) = [EXPIRED, SENT]
   \<and> statuses (applyOps (expireOldClaims 3601000 scenarioD)
        [ExpirySweep 3700000, MarkClaimed 3700000 1 ''u1'']) ! 0 \<noteq> PENDING"
  using status_never_returns [of 1 scenarioD
      "[ExpirySweep 3601000, MarkClaimed 3700000 1 ''u2'', ExpirySweep 3800000]" 3601000]
    status_never_returns [of 0 "expireOldClaims 3601000 scenarioD"
      "[ExpirySweep 3700000, MarkClaimed 3700000 1 ''u1'']" 3700000]
  by (simp add: scenarioD_def scenario_defs distribution_defs winner_op_defs or_null_def)

text \<open>
  The claim as stated fails: the record of u1, expired by the sweep, becomes sent when it
  is marked as claimed.
\<close>

theorem expired_record_becomes_sent:
  "statuses (expireOldClaims 3601000 scenarioD) = [EXPIRED, SENT]
   \<and> statuses (applyOp (expireOldClaims 3601000 scenarioD) (MarkClaimed 3700000 1 ''u1''))
       = [SENT, SENT]"
  by (simp add: scenarioD_def scenario_defs distribution_defs winner_op_defs or_null_def)

section \<open>Distribution: prizes in order, fallback text\<close>

lemma nextAvailable_None:
  assumes "getNextAvailablePrize d w = None"
  shows "\<forall>r\<in>set (prize_warehouse d). pw_warehouse_name r = w \<longrightarrow> pw_stock_count r \<le> 0"
proof -
  have "getWarehousePrizes d w = []"
    using assms by (simp add: getNextAvailablePrize_def split: list.splits)
  then have "set (getWarehousePrizes d w) = {}" by simp
  then show ?thesis by (auto simp: getWarehousePrizes_def)
qed

lemma nextAvailable_Some:
  assumes "getNextAvailablePrize d w = Some p"
  shows "p \<in> set (prize_warehouse d)" "pw_warehouse_name p = w" "0 < pw_stock_count p"
    and "\<forall>r\<in>set (prize_warehouse d). pw_warehouse_name r = w \<and> 0 < pw_stock_count r
            \<longrightarrow> pw_order_index p \<le> pw_order_index r"
proof -
  let ?xs = "filter (\<lambda>r. pw_warehouse_name r = w \<and> 0 < pw_stock_count r) (prize_warehouse d)"
  obtain rest where s: "sort_key pw_order_index ?xs = p # rest"
    using assms by (auto simp: getNextAvailablePrize_def getWarehousePrizes_def split: list.splits)
  have "set (sort_key pw_order_index ?xs) = set ?xs" by simp
  then have pin: "p \<in> set ?xs" and sub: "set ?xs = set (p # rest)" using s by auto
  from pin show "p \<in> set (prize_warehouse d)" "pw_warehouse_name p = w" "0 < pw_stock_count p"
    by auto
  have "sorted (map pw_order_index (sort_key pw_order_index ?xs))" by (rule sorted_sort_key)
  then have "\<forall>r\<in>set rest. pw_order_index p \<le> pw_order_index r" using s by simp
  then have "\<forall>r\<in>set ?xs. pw_order_index p \<le> pw_order_index r" using sub by auto
  then show "\<forall>r\<in>set (prize_warehouse d). pw_warehouse_name r = w \<and> 0 < pw_stock_count r
            \<longrightarrow> pw_order_index p \<le> pw_order_index r" by auto
qed

lemma stockOf_insertWinner: "stockOf (insertWinner now lottery winner text d) i = stockOf d i"
  by (simp add: stockOf_def insertWinner_def)

lemma assignPrize_None:
  assumes "getNextAvailablePrize d (warehouseOf lottery) = None"
  shows "assignPrize now lottery d winner = insertWinner now lottery winner fallbackPrizeText d"
  using assms by (simp add: assignPrize_def)

lemma assignPrize_Some:
  assumes "getNextAvailablePrize d (warehouseOf lottery) = Some p"
  shows "assignPrize now lottery d winner =
           snd (consumePrize (insertWinner now lottery winner (pw_prize_text p) d) (pw_id p))"
  using assms by (simp add: assignPrize_def)

lemma winners_consume: "lottery_winners (snd (consumePrize d k)) = lottery_winners d"
  by (simp add: consumePrize_def)

lemma texts_insertWinner:
  "map lw_prize_text (lottery_winners (insertWinner now lottery winner text d))
     = map lw_prize_text (lottery_winners d) @ [Some text]"
  by (simp add: insertWinner_def)

lemma insort_key_map_same:
  "g (f a) = g a \<Longrightarrow> \<forall>x\<in>set ys. g (f x) = g x \<Longrightarrow>
   insort_key g (f a) (map f ys) = map f (insort_key g a ys)"
  by (induction ys) auto

lemma sort_key_map_same:
  "\<forall>x\<in>set xs. g (f x) = g x \<Longrightarrow> sort_key g (map f xs) = map f (sort_key g xs)"
proof (induction xs)
  case Nil
  then show ?case by simp
next
  case (Cons a xs)
  have "sort_key g (map f (a # xs)) = insort_key g (f a) (sort_key g (map f xs))"
    by simp
  also have "\<dots> = insort_key g (f a) (map f (sort_key g xs))"
    using Cons by simp
  also have "\<dots> = map f (insort_key g a (sort_key g xs))"
    using Cons.prems by (intro insort_key_map_same) simp_all
  finally show ?case by simp
qed

lemma distinct_rows: "distinct (map pw_id rows) \<Longrightarrow> distinct rows"
  by (rule distinct_map[THEN iffD1, THEN conjunct1])

lemma same_id_same_row:
  "distinct (map pw_id rows) \<Longrightarrow> r \<in> set rows \<Longrightarrow> p \<in> set rows \<Longrightarrow> pw_id r = pw_id p \<Longrightarrow> r = p"
  by (meson distinct_map inj_onD)

lemma consumable_is_row:
  assumes "distinct (map pw_id rows)" "p \<in> set rows" "0 < pw_stock_count p" "r \<in> set rows"
  shows "consumable (pw_id p) r = (r = p)"
  using assms same_id_same_row[OF assms(1) assms(4) assms(2)] by (auto simp: consumable_def)

lemma warehouse_after_consume:
  assumes ids: "distinct (map pw_id (prize_warehouse d))"
      and sel: "getWarehousePrizes d wh = p # rest"
  shows "getWarehousePrizes (snd (consumePrize d (pw_id p))) wh
           = (if 1 < pw_stock_count p then [p\<lparr>pw_stock_count := pw_stock_count p - 1\<rparr>] else []) @ rest"
proof -
  let ?rows = "prize_warehouse d"
  let ?P = "\<lambda>r. pw_warehouse_name r = wh \<and> 0 < pw_stock_count r"
  let ?dec = "\<lambda>r. if consumable (pw_id p) r then r\<lparr>pw_stock_count := pw_stock_count r - 1\<rparr> else r"
  let ?xs = "filter ?P ?rows"
  have srt: "sort_key pw_order_index ?xs = p # rest"
    using sel by (simp add: getWarehousePrizes_def)
  have "set (sort_key pw_order_index ?xs) = set ?xs" by simp
  then have pin: "p \<in> set ?xs" and restsub: "set rest \<subseteq> set ?xs" using srt by auto
  then have prow: "p \<in> set ?rows" and pos: "0 < pw_stock_count p" and pname: "pw_warehouse_name p = wh"
    by auto
  have "distinct ?xs" using distinct_rows[OF ids] by simp
  then have "distinct (sort_key pw_order_index ?xs)" by simp
  then have pnotin: "p \<notin> set rest" using srt by simp
  have dec: "\<And>r. r \<in> set ?rows \<Longrightarrow> ?dec r = (if r = p then p\<lparr>pw_stock_count := pw_stock_count p - 1\<rparr> else r)"
    using consumable_is_row[OF ids prow pos] by simp
  have order: "\<And>r. pw_order_index (?dec r) = pw_order_index r" by simp
  have new: "getWarehousePrizes (snd (consumePrize d (pw_id p))) wh
               = sort_key pw_order_index (filter ?P (map ?dec ?rows))"
    by (simp add: getWarehousePrizes_def consumePrize_def)
  have fm: "filter ?P (map ?dec ?rows) = map ?dec (filter (\<lambda>r. ?P (?dec r)) ?rows)"
    by (simp add: filter_map comp_def)
  show ?thesis
  proof (cases "1 < pw_stock_count p")
    case True
    have "\<And>r. r \<in> set ?rows \<Longrightarrow> ?P (?dec r) = ?P r"
      using dec True pname by auto
    then have "filter (\<lambda>r. ?P (?dec r)) ?rows = ?xs"
      by (intro filter_cong) auto
    then have "sort_key pw_order_index (filter ?P (map ?dec ?rows))
                 = sort_key pw_order_index (map ?dec ?xs)"
      using fm by simp
    also have "\<dots> = map ?dec (sort_key pw_order_index ?xs)"
      by (intro sort_key_map_same) simp
    also have "\<dots> = ?dec p # map ?dec rest" using srt by simp
    also have "map ?dec rest = rest"
    proof (intro map_idI)
      fix r assume "r \<in> set rest"
      then have "r \<in> set ?rows" "r \<noteq> p" using restsub pnotin by auto
      then show "?dec r = r" using dec by simp
    qed
    also have "?dec p = p\<lparr>pw_stock_count := pw_stock_count p - 1\<rparr>"
      using dec[OF prow] by simp
    finally show ?thesis using new True by simp
  next
    case False
    then have one: "pw_stock_count p = 1" using pos by simp
    have "\<And>r. r \<in> set ?rows \<Longrightarrow> ?P (?dec r) = (?P r \<and> r \<noteq> p)"
      using dec one by auto
    then have f1: "filter (\<lambda>r. ?P (?dec r)) ?rows = filter (\<lambda>r. r \<noteq> p) ?xs"
      by (simp add: conj_commute cong: filter_cong)
    have "map ?dec (filter (\<lambda>r. r \<noteq> p) ?xs) = filter (\<lambda>r. r \<noteq> p) ?xs"
    proof (intro map_idI)
      fix r assume "r \<in> set (filter (\<lambda>r. r \<noteq> p) ?xs)"
      then have "r \<in> set ?rows" "r \<noteq> p" by auto
      then show "?dec r = r" using dec by simp
    qed
    then have "sort_key pw_order_index (filter ?P (map ?dec ?rows))
                 = sort_key pw_order_index (filter (\<lambda>r. r \<noteq> p) ?xs)"
      using fm f1 by simp
    also have "\<dots> = filter (\<lambda>r. r \<noteq> p) (sort_key pw_order_index ?xs)"
      by (simp add: filter_sort)
    also have "\<dots> = rest" using srt pnotin by (auto simp: filter_id_conv)
    finally show ?thesis using new False by simp
  qed
qed

lemma warehouse_insertWinner:
  "getWarehousePrizes (insertWinner now lottery winner text d) wh = getWarehousePrizes d wh"
  by (simp add: getWarehousePrizes_def insertWinner_def)

lemma queue_insertWinner:
  "spec_prizeQueue (insertWinner now lottery winner text d) wh = spec_prizeQueue d wh"
  by (simp add: spec_prizeQueue_def warehouse_insertWinner)

lemma ids_insertWinner:
  "prize_warehouse (insertWinner now lottery winner text d) = prize_warehouse d"
  by (simp add: insertWinner_def)

lemma ids_consume: "map pw_id (prize_warehouse (snd (consumePrize d k))) = map pw_id (prize_warehouse d)"
  by (simp add: consumePrize_def)

lemma ids_assignPrize:
  "map pw_id (prize_warehouse (assignPrize now lottery d winner)) = map pw_id (prize_warehouse d)"
  by (simp add: assignPrize_def Let_def ids_consume ids_insertWinner split: option.splits)

lemma users_insertWinner:
  "map lw_user_id (lottery_winners (insertWinner now lottery winner text d))
     = map lw_user_id (lottery_winners d) @ [lp_user_id winner]"
  by (simp add: insertWinner_def)

lemma assignPrize_queue:
  assumes ids: "distinct (map pw_id (prize_warehouse d))"
  shows "map lw_prize_text (lottery_winners (assignPrize now lottery d winner))
           = map lw_prize_text (lottery_winners d)
               @ [Some (case spec_prizeQueue d (warehouseOf lottery) of
                          [] \<Rightarrow> fallbackPrizeText | t # _ \<Rightarrow> t)]"
    and "spec_prizeQueue (assignPrize now lottery d winner) (warehouseOf lottery)
           = tl (spec_prizeQueue d (warehouseOf lottery))"
    and "map lw_user_id (lottery_winners (assignPrize now lottery d winner))
           = map lw_user_id (lottery_winners d) @ [lp_user_id winner]"
proof -
  let ?wh = "warehouseOf lottery"
  show "map lw_user_id (lottery_winners (assignPrize now lottery d winner))
           = map lw_user_id (lottery_winners d) @ [lp_user_id winner]"
    by (simp add: assignPrize_def Let_def winners_consume users_insertWinner split: option.splits)
  have both: "map lw_prize_text (lottery_winners (assignPrize now lottery d winner))
           = map lw_prize_text (lottery_winners d)
               @ [Some (case spec_prizeQueue d ?wh of [] \<Rightarrow> fallbackPrizeText | t # _ \<Rightarrow> t)]
        \<and> spec_prizeQueue (assignPrize now lottery d winner) ?wh = tl (spec_prizeQueue d ?wh)"
  proof (cases "getWarehousePrizes d ?wh")
    case Nil
    then have none: "getNextAvailablePrize d ?wh = None" by (simp add: getNextAvailablePrize_def)
    have q: "spec_prizeQueue d ?wh = []" using Nil by (simp add: spec_prizeQueue_def)
    have a: "assignPrize now lottery d winner = insertWinner now lottery winner fallbackPrizeText d"
      using none by (simp add: assignPrize_def)
    show ?thesis
      by (simp add: a texts_insertWinner queue_insertWinner q)
  next
    case (Cons p rest)
    then have some: "getNextAvailablePrize d ?wh = Some p" by (simp add: getNextAvailablePrize_def)
    have "p \<in> set (getWarehousePrizes d ?wh)" using Cons by simp
    then have pos: "0 < pw_stock_count p" by (auto simp: getWarehousePrizes_def)
    let ?d1 = "insertWinner now lottery winner (pw_prize_text p) d"
    have a: "assignPrize now lottery d winner = snd (consumePrize ?d1 (pw_id p))"
      using some by (simp add: assignPrize_def)
    have ids1: "distinct (map pw_id (prize_warehouse ?d1))" using ids by (simp add: ids_insertWinner)
    have sel1: "getWarehousePrizes ?d1 ?wh = p # rest" using Cons by (simp add: warehouse_insertWinner)
    note after = warehouse_after_consume[OF ids1 sel1]
    have rep: "replicate (nat (pw_stock_count p)) (pw_prize_text p)
                 = pw_prize_text p # replicate (nat (pw_stock_count p - 1)) (pw_prize_text p)"
      using pos by (metis Suc_nat_eq_nat_zadd1 add.commute diff_add_cancel replicate_Suc
          zle_diff1_eq)
    have q: "spec_prizeQueue d ?wh
               = pw_prize_text p # replicate (nat (pw_stock_count p - 1)) (pw_prize_text p)
                   @ concat (map (\<lambda>p. replicate (nat (pw_stock_count p)) (pw_prize_text p)) rest)"
      using Cons rep by (simp add: spec_prizeQueue_def)
    have q': "spec_prizeQueue (assignPrize now lottery d winner) ?wh
               = replicate (nat (pw_stock_count p - 1)) (pw_prize_text p)
                   @ concat (map (\<lambda>p. replicate (nat (pw_stock_count p)) (pw_prize_text p)) rest)"
      using after pos by (auto simp: a spec_prizeQueue_def)
    show ?thesis
      using q q' by (simp add: a winners_consume texts_insertWinner)
  qed
  then show "map lw_prize_text (lottery_winners (assignPrize now lottery d winner))
           = map lw_prize_text (lottery_winners d)
               @ [Some (case spec_prizeQueue d ?wh of [] \<Rightarrow> fallbackPrizeText | t # _ \<Rightarrow> t)]"
    and "spec_prizeQueue (assignPrize now lottery d winner) ?wh = tl (spec_prizeQueue d ?wh)"
    by simp_all
qed

lemma assigned_step:
  "take (Suc n) q @ replicate (Suc n - length q) (fb::'a)
     = (case q of [] \<Rightarrow> fb | t # _ \<Rightarrow> t) # (take n (tl q) @ replicate (n - length (tl q)) fb)"
  by (cases q) simp_all

lemma distributeTransaction_queue:
  assumes "distinct (map pw_id (prize_warehouse d))"
  shows "map lw_prize_text (lottery_winners (distributeTransaction now lottery winners d))
           = map lw_prize_text (lottery_winners d)
               @ map Some (spec_assignedTexts d (warehouseOf lottery) (length winners))
       \<and> spec_prizeQueue (distributeTransaction now lottery winners d) (warehouseOf lottery)
           = drop (length winners) (spec_prizeQueue d (warehouseOf lottery))
       \<and> map lw_user_id (lottery_winners (distributeTransaction now lottery winners d))
           = map lw_user_id (lottery_winners d) @ map lp_user_id winners"
  using assms
proof (induction now lottery winners d rule: distributeTransaction.induct)
  case (1 now lottery d)
  then show ?case by (simp add: spec_assignedTexts_def)
next
  case (2 now lottery winner winners d)
  let ?d1 = "assignPrize now lottery d winner"
  note step = assignPrize_queue[OF "2.prems", of now lottery winner]
  have ids1: "distinct (map pw_id (prize_warehouse ?d1))"
    using "2.prems" by (simp add: ids_assignPrize)
  note rest = "2.IH"[OF ids1]
  have texts: "spec_assignedTexts d (warehouseOf lottery) (length (winner # winners))
      = (case spec_prizeQueue d (warehouseOf lottery) of [] \<Rightarrow> fallbackPrizeText | t # _ \<Rightarrow> t)
          # spec_assignedTexts ?d1 (warehouseOf lottery) (length winners)"
    using assigned_step[of "length winners" "spec_prizeQueue d (warehouseOf lottery)" fallbackPrizeText]
    by (simp add: spec_assignedTexts_def step(2))
  show ?case
    using rest step texts by (simp add: drop_Suc)
qed

lemma others_assignPrize:
  assumes ids: "distinct (map pw_id (prize_warehouse d))"
  shows "filter (\<lambda>r. pw_warehouse_name r \<noteq> warehouseOf lottery)
           (prize_warehouse (assignPrize now lottery d winner))
         = filter (\<lambda>r. pw_warehouse_name r \<noteq> warehouseOf lottery) (prize_warehouse d)"
proof (cases "getWarehousePrizes d (warehouseOf lottery)")
  case Nil
  then have "getNextAvailablePrize d (warehouseOf lottery) = None"
    by (simp add: getNextAvailablePrize_def)
  then show ?thesis by (simp add: assignPrize_def ids_insertWinner)
next
  case (Cons p rest)
  let ?wh = "warehouseOf lottery"
  let ?rows = "prize_warehouse d"
  let ?dec = "\<lambda>r. if consumable (pw_id p) r then r\<lparr>pw_stock_count := pw_stock_count r - 1\<rparr> else r"
  have some: "getNextAvailablePrize d ?wh = Some p" using Cons by (simp add: getNextAvailablePrize_def)
  have "p \<in> set (getWarehousePrizes d ?wh)" using Cons by simp
  then have prow: "p \<in> set ?rows" and pos: "0 < pw_stock_count p" and pname: "pw_warehouse_name p = ?wh"
    by (auto simp: getWarehousePrizes_def)
  have rows': "prize_warehouse (assignPrize now lottery d winner) = map ?dec ?rows"
    using some by (simp add: assignPrize_def consumePrize_def ids_insertWinner)
  have "filter (\<lambda>r. pw_warehouse_name r \<noteq> ?wh) (map ?dec ?rows)
          = map ?dec (filter (\<lambda>r. pw_warehouse_name r \<noteq> ?wh) ?rows)"
    by (simp add: filter_map comp_def)
  also have "\<dots> = filter (\<lambda>r. pw_warehouse_name r \<noteq> ?wh) ?rows"
  proof (intro map_idI)
    fix r assume "r \<in> set (filter (\<lambda>r. pw_warehouse_name r \<noteq> ?wh) ?rows)"
    then have "r \<in> set ?rows" "r \<noteq> p" using pname by auto
    then show "?dec r = r" using consumable_is_row[OF ids prow pos] by simp
  qed
  finally show ?thesis using rows' by simp
qed

lemma others_distributeTransaction:
  assumes "distinct (map pw_id (prize_warehouse d))"
  shows "filter (\<lambda>r. pw_warehouse_name r \<noteq> warehouseOf lottery)
           (prize_warehouse (distributeTransaction now lottery winners d))
         = filter (\<lambda>r. pw_warehouse_name r \<noteq> warehouseOf lottery) (prize_warehouse d)"
  using assms
proof (induction now lottery winners d rule: distributeTransaction.induct)
  case (1 now lottery d)
  then show ?case by simp
next
  case (2 now lottery winner winners d)
  have "distinct (map pw_id (prize_warehouse (assignPrize now lottery d winner)))"
    using "2.prems" by (simp add: ids_assignPrize)
  then show ?case using "2.IH" others_assignPrize[OF "2.prems"] by simp
qed

lemma sendPrizeToWinner_texts:
  "map lw_prize_text (lottery_winners (snd (sendPrizeToWinner e w l d)))
     = map lw_prize_text (lottery_winners d)
   \<and> map lw_user_id (lottery_winners (snd (sendPrizeToWinner e w l d)))
     = map lw_user_id (lottery_winners d)
   \<and> prize_warehouse (snd (sendPrizeToWinner e w l d)) = prize_warehouse d"
  by (auto simp: sendPrizeToWinner_def)

lemma sendAll_texts:
  "map lw_prize_text (lottery_winners (sendAll e l ws d)) = map lw_prize_text (lottery_winners d)
   \<and> map lw_user_id (lottery_winners (sendAll e l ws d)) = map lw_user_id (lottery_winners d)
   \<and> prize_warehouse (sendAll e l ws d) = prize_warehouse d"
  by (induction e l ws d rule: sendAll.induct)
     (simp_all add: sendPrizeToWinner_texts split: option.splits)

lemma distributePrizes_texts:
  "map lw_prize_text (lottery_winners (distributePrizes e l ws d))
     = map lw_prize_text (lottery_winners (distributeTransaction (env_now e) l ws d))
   \<and> map lw_user_id (lottery_winners (distributePrizes e l ws d))
     = map lw_user_id (lottery_winners (distributeTransaction (env_now e) l ws d))
   \<and> prize_warehouse (distributePrizes e l ws d)
     = prize_warehouse (distributeTransaction (env_now e) l ws d)"
  by (simp add: distributePrizes_def Let_def sendAll_texts)

lemma queue_cong:
  "prize_warehouse d' = prize_warehouse d \<Longrightarrow> spec_prizeQueue d' wh = spec_prizeQueue d wh"
  by (simp add: spec_prizeQueue_def getWarehousePrizes_def)

lemma distribution_pass_spec:
  assumes "distinct (map pw_id (prize_warehouse d))"
  shows "map lw_user_id (lottery_winners (distributePrizes e lottery winners d))
           = map lw_user_id (lottery_winners d) @ map lp_user_id winners
       \<and> map lw_prize_text (lottery_winners (distributePrizes e lottery winners d))
           = map lw_prize_text (lottery_winners d)
               @ map Some (spec_assignedTexts d (warehouseOf lottery) (length winners))
       \<and> spec_prizeQueue (distributePrizes e lottery winners d) (warehouseOf lottery)
           = drop (length winners) (spec_prizeQueue d (warehouseOf lottery))
       \<and> filter (\<lambda>r. pw_warehouse_name r \<noteq> warehouseOf lottery)
             (prize_warehouse (distributePrizes e lottery winners d))
           = filter (\<lambda>r. pw_warehouse_name r \<noteq> warehouseOf lottery) (prize_warehouse d)
       \<and> sorted (map pw_order_index (getWarehousePrizes d (warehouseOf lottery)))
       \<and> mset (getWarehousePrizes d (warehouseOf lottery))
           = mset (filter (\<lambda>r. pw_warehouse_name r = warehouseOf lottery \<and> 0 < pw_stock_count r)
                    (prize_warehouse d))"
proof -
  note tr = distributeTransaction_queue[OF assms, of "env_now e" lottery winners]
  note dp = distributePrizes_texts[of e lottery winners d]
  have q: "spec_prizeQueue (distributePrizes e lottery winners d) (warehouseOf lottery)
         = spec_prizeQueue (distributeTransaction (env_now e) lottery winners d) (warehouseOf lottery)"
    using dp by (intro queue_cong) simp
  have o: "filter (\<lambda>r. pw_warehouse_name r \<noteq> warehouseOf lottery)
             (prize_warehouse (distributePrizes e lottery winners d))
           = filter (\<lambda>r. pw_warehouse_name r \<noteq> warehouseOf lottery) (prize_warehouse d)"
    using dp others_distributeTransaction[OF assms, of lottery "env_now e" winners] by simp
  have s: "sorted (map pw_order_index (getWarehousePrizes d (warehouseOf lottery)))"
    by (simp add: getWarehousePrizes_def)
  have m: "mset (getWarehousePrizes d (warehouseOf lottery))
           = mset (filter (\<lambda>r. pw_warehouse_name r = warehouseOf lottery \<and> 0 < pw_stock_count r)
                    (prize_warehouse d))"
    by (simp add: getWarehousePrizes_def)
  show ?thesis using tr dp q o s m by simp
qed

text \<open>
  C6: the distribution pass gives the winners, in their order, the units of the
  lottery's warehouse in the spec's selection order (items with stock, ascending
  order\_index, one unit of stock per winner), and the fallback text to the winners who
  come after the last unit; the units left are those not taken, and items of other
  warehouses are untouched. Each pass of the loop takes the item with the lowest
  order\_index among those with stock, gives its text to the record and lowers its stock
  by one (no other stock changes), or gives the fallback text and leaves the inventory
  when no item has stock. In the scenario of one item of stock 1 and two winners, the
  records carry the item's text and the fallback text, and the stock ends at 0.
\<close>

theorem prizes_assigned_in_order:
  assumes "distinct (map pw_id (prize_warehouse d))"
  shows "map lw_user_id (lottery_winners (distributePrizes e lottery winners d))
           = map lw_user_id (lottery_winners d) @ map lp_user_id winners
       \<and> map lw_prize_text (lottery_winners (distributePrizes e lottery winners d))
           = map lw_prize_text (lottery_winners d)
               @ map Some (spec_assignedTexts d (warehouseOf lottery) (length winners))
       \<and> spec_prizeQueue (distributePrizes e lottery winners d) (warehouseOf lottery)
           = drop (length winners) (spec_prizeQueue d (warehouseOf lottery))
       \<and> filter (\<lambda>r. pw_warehouse_name r \<noteq> warehouseOf lottery)
             (prize_warehouse (distributePrizes e lottery winners d))
           = filter (\<lambda>r. pw_warehouse_name r \<noteq> warehouseOf lottery) (prize_warehouse d)
       \<and> sorted (map pw_order_index (getWarehousePrizes d (warehouseOf lottery)))
       \<and> mset (getWarehousePrizes d (warehouseOf lottery))
           = mset (filter (\<lambda>r. pw_warehouse_name r = warehouseOf lottery \<and> 0 < pw_stock_count r)
                    (prize_warehouse d))
       \<and> (case getNextAvailablePrize d (warehouseOf lottery) of
            None \<Rightarrow>
              (\<forall>r\<in>set (prize_warehouse d).
                  pw_warehouse_name r = warehouseOf lottery \<longrightarrow> pw_stock_count r \<le> 0)
              \<and> prize_warehouse (assignPrize now lottery d winner) = prize_warehouse d
              \<and> map lw_prize_text (lottery_winners (assignPrize now lottery d winner))
                  = map lw_prize_text (lottery_winners d) @ [Some fallbackPrizeText]
          | Some p \<Rightarrow>
              p \<in> set (prize_warehouse d) \<and> pw_warehouse_name p = warehouseOf lottery
              \<and> 0 < pw_stock_count p
              \<and> (\<forall>r\<in>set (prize_warehouse d).
                    pw_warehouse_name r = warehouseOf lottery \<and> 0 < pw_stock_count r
                    \<longrightarrow> pw_order_index p \<le> pw_order_index r)
              \<and> map lw_prize_text (lottery_winners (assignPrize now lottery d winner))
                  = map lw_prize_text (lottery_winners d) @ [Some (pw_prize_text p)]
              \<and> stockOf (assignPrize now lottery d winner) (pw_id p) = Some (pw_stock_count p - 1)
              \<and> (\<forall>other. other \<noteq> pw_id p \<longrightarrow>
                    stockOf (assignPrize now lottery d winner) other = stockOf d other))
       \<and> map lw_prize_text (lottery_winners (snd (performLotteryDraw (scenarioEnv 10)
              (scenarioLottery 1 3 2 AUTO_SEND 86400) scenarioTwo)))
           = [Some ''voucher'', Some fallbackPrizeText]
       \<and> stockOf (snd (performLotteryDraw (scenarioEnv 10)
              (scenarioLottery 1 3 2 AUTO_SEND 86400) scenarioTwo)) 1 = Some 0"
proof -
  have pass: "map lw_user_id (lottery_winners (distributePrizes e lottery winners d))
           = map lw_user_id (lottery_winners d) @ map lp_user_id winners
       \<and> map lw_prize_text (lottery_winners (distributePrizes e lottery winners d))
           = map lw_prize_text (lottery_winners d)
               @ map Some (spec_assignedTexts d (warehouseOf lottery) (length winners))
       \<and> spec_prizeQueue (distributePrizes e lottery winners d) (warehouseOf lottery)
           = drop (length winners) (spec_prizeQueue d (warehouseOf lottery))
       \<and> filter (\<lambda>r. pw_warehouse_name r \<noteq> warehouseOf lottery)
             (prize_warehouse (distributePrizes e lottery winners d))
           = filter (\<lambda>r. pw_warehouse_name r \<noteq> warehouseOf lottery) (prize_warehouse d)
       \<and> sorted (map pw_order_index (getWarehousePrizes d (warehouseOf lottery)))
       \<and> mset (getWarehousePrizes d (warehouseOf lottery))
           = mset (filter (\<lambda>r. pw_warehouse_name r = warehouseOf lottery \<and> 0 < pw_stock_count r)
                    (prize_warehouse d))"
    using distribution_pass_spec[OF assms, of e lottery winners] .
  have step: "case getNextAvailablePrize d (warehouseOf lottery) of
            None \<Rightarrow>
              (\<forall>r\<in>set (prize_warehouse d).
                  pw_warehouse_name r = warehouseOf lottery \<longrightarrow> pw_stock_count r \<le> 0)
              \<and> prize_warehouse (assignPrize now lottery d winner) = prize_warehouse d
              \<and> map lw_prize_text (lottery_winners (assignPrize now lottery d winner))
                  = map lw_prize_text (lottery_winners d) @ [Some fallbackPrizeText]
          | Some p \<Rightarrow>
              p \<in> set (prize_warehouse d) \<and> pw_warehouse_name p = warehouseOf lottery
              \<and> 0 < pw_stock_count p
              \<and> (\<forall>r\<in>set (prize_warehouse d).
                    pw_warehouse_name r = warehouseOf lottery \<and> 0 < pw_stock_count r
                    \<longrightarrow> pw_order_index p \<le> pw_order_index r)
              \<and> map lw_prize_text (lottery_winners (assignPrize now lottery d winner))
                  = map lw_prize_text (lottery_winners d) @ [Some (pw_prize_text p)]
              \<and> stockOf (assignPrize now lottery d winner) (pw_id p) = Some (pw_stock_count p - 1)
              \<and> (\<forall>other. other \<noteq> pw_id p \<longrightarrow>
                    stockOf (assignPrize now lottery d winner) other = stockOf d other)"
  proof (cases "getNextAvailablePrize d (warehouseOf lottery)")
    case None
    have "prize_warehouse (assignPrize now lottery d winner) = prize_warehouse d"
      by (simp add: assignPrize_None[OF None] insertWinner_def)
    moreover have "map lw_prize_text (lottery_winners (assignPrize now lottery d winner))
                  = map lw_prize_text (lottery_winners d) @ [Some fallbackPrizeText]"
      by (simp add: assignPrize_None[OF None] texts_insertWinner)
    ultimately show ?thesis using None nextAvailable_None[OF None] by simp
  next
    case (Some p)
    note sel = nextAvailable_Some[OF Some]
    have st: "stockOf d (pw_id p) = Some (pw_stock_count p)"
      using find_distinct_id[OF assms sel(1)] by (simp add: stockOf_def)
    have "map lw_prize_text (lottery_winners (assignPrize now lottery d winner))
                  = map lw_prize_text (lottery_winners d) @ [Some (pw_prize_text p)]"
      by (simp add: assignPrize_Some[OF Some] winners_consume texts_insertWinner)
    moreover have "stockOf (assignPrize now lottery d winner) (pw_id p) = Some (pw_stock_count p - 1)"
      using sel(3) by (simp add: assignPrize_Some[OF Some] stockOf_consume stockOf_insertWinner st)
    moreover have "\<forall>other. other \<noteq> pw_id p \<longrightarrow>
                    stockOf (assignPrize now lottery d winner) other = stockOf d other"
      by (simp add: assignPrize_Some[OF Some] stockOf_consume stockOf_insertWinner option.map_ident)
    ultimately show ?thesis using Some sel by simp
  qed
  have s1: "map lw_prize_text (lottery_winners (snd (performLotteryDraw (scenarioEnv 10)
              (scenarioLottery 1 3 2 AUTO_SEND 86400) scenarioTwo)))
           = [Some ''voucher'', Some fallbackPrizeText]"
    by (simp add: scenarioTwo_def scenario_defs admission_defs draw_defs distribution_defs)
  have s2: "stockOf (snd (performLotteryDraw (scenarioEnv 10)
              (scenarioLottery 1 3 2 AUTO_SEND 86400) scenarioTwo)) 1 = Some 0"
    by (simp add: scenarioTwo_def scenario_defs admission_defs draw_defs distribution_defs stockOf_def)
  show ?thesis using pass step s1 s2 by blast
qed

theorem prizes_assigned_in_order_witness:
  "distinct (map pw_id (prize_warehouse scenarioTwo))
   \<and> spec_assignedTexts scenarioTwo ''w1'' 2 = [''voucher'', fallbackPrizeText]
   \<and> map lw_prize_text (lottery_winners
        (distributePrizes (scenarioEnv 10) (scenarioLottery 1 3 2 AUTO_SEND 86400)
           [scenarioParticipant 1 ''u1'', scenarioParticipant 2 ''u2''] scenarioTwo))
       = [Some ''voucher'', Some fallbackPrizeText]
   \<and> spec_assignedTexts (scenarioDb [] [scenarioPrize 2]) ''w1'' 2 = [''voucher'', ''voucher'']
   \<and> map lw_prize_text (lottery_winners
        (distributePrizes (scenarioEnv 10) (scenarioLottery 1 3 2 AUTO_SEND 86400)
           [scenarioParticipant 1 ''u1'', scenarioParticipant 2 ''u2'']
           (scenarioDb [] [scenarioPrize 2])))
       = [Some ''voucher'', Some ''voucher'']
   \<and> spec_prizeQueue
        (distributePrizes (scenarioEnv 10) (scenarioLottery 1 3 2 AUTO_SEND 86400)
           [scenarioParticipant 1 ''u1'', scenarioParticipant 2 ''u2'']
           (scenarioDb [] [scenarioPrize 2])) ''w1'' = []
   \<and> getNextAvailablePrize scenarioTwo ''w1'' = Some (scenarioPrize 1)
   \<and> map lw_prize_text (lottery_winners
        (assignPrize 10 (scenarioLottery 1 3 2 AUTO_SEND 86400) scenarioTwo
           \<lparr>lp_id = 1, lp_lottery_id = 1, lp_user_id = ''u1'', lp_username = None,
            lp_first_name = None, lp_last_name = None, lp_joined_at = 1\<rparr>))
       = [Some ''voucher'']
   \<and> stockOf (assignPrize 10 (scenarioLottery 1 3 2 AUTO_SEND 86400) scenarioTwo
           \<lparr>lp_id = 1, lp_lottery_id = 1, lp_user_id = ''u1'', lp_username = None,
            lp_first_name = None, lp_last_name = None, lp_joined_at = 1\<rparr>) 1 = Some 0
   \<and> getNextAvailablePrize
        (assignPrize 10 (scenarioLottery 1 3 2 AUTO_SEND 86400) scenarioTwo
           \<lparr>lp_id = 1, lp_lottery_id = 1, lp_user_id = ''u1'', lp_username = None,
            lp_first_name = None, lp_last_name = None, lp_joined_at = 1\<rparr>) ''w1'' = None
   \<and> map lw_prize_text (lottery_winners
        (assignPrize 10 (scenarioLottery 1 3 2 AUTO_SEND 86400)
           (assignPrize 10 (scenarioLottery 1 3 2 AUTO_SEND 86400) scenarioTwo
              \<lparr>lp_id = 1, lp_lottery_id = 1, lp_user_id = ''u1'', lp_username = None,
               lp_first_name = None, lp_last_name = None, lp_joined_at = 1\<rparr>)
           \<lparr>lp_id = 2, lp_lottery_id = 1, lp_user_id = ''u2'', lp_username = None,
            lp_first_name = None, lp_last_name = None, lp_joined_at = 2\<rparr>))
       = [Some ''voucher'', Some fallbackPrizeText]"
  using prizes_assigned_in_order [where d = scenarioTwo and e = "scenarioEnv 10"
      and lottery = "scenarioLottery 1 3 2 AUTO_SEND 86400"
      and winners = "[scenarioParticipant 1 ''u1'', scenarioParticipant 2 ''u2'']" and now = 10
      and winner = "\<lparr>lp_id = 1, lp_lottery_id = 1, lp_user_id = ''u1'', lp_username = None,
        lp_first_name = None, lp_last_name = None, lp_joined_at = 1\<rparr>"]
    prizes_assigned_in_order [where e = "scenarioEnv 10"
      and winners = "[scenarioParticipant 1 ''u1'', scenarioParticipant 2 ''u2'']" and now = 10
      and d = "assignPrize 10 (scenarioLottery 1 3 2 AUTO_SEND 86400) scenarioTwo
           \<lparr>lp_id = 1, lp_lottery_id = 1, lp_user_id = ''u1'', lp_username = None,
            lp_first_name = None, lp_last_name = None, lp_joined_at = 1\<rparr>"
      and lottery = "scenarioLottery 1 3 2 AUTO_SEND 86400"
      and winner = "\<lparr>lp_id = 2, lp_lottery_id = 1, lp_user_id = ''u2'', lp_username = None,
        lp_first_name = None, lp_last_name = None, lp_joined_at = 2\<rparr>"]
    prizes_assigned_in_order [where d = "scenarioDb [] [scenarioPrize 2]" and e = "scenarioEnv 10"
      and lottery = "scenarioLottery 1 3 2 AUTO_SEND 86400"
      and winners = "[scenarioParticipant 1 ''u1'', scenarioParticipant 2 ''u2'']" and now = 10
      and winner = "scenarioParticipant 1 ''u1''"]
  by (simp add: scenarioTwo_def scenario_defs admission_defs distribution_defs stockOf_def
      scenarioParticipant_def spec_assignedTexts_def spec_prizeQueue_def numeral_2_eq_2)

section \<open>Draw engine: number of winners, completion\<close>


















text \<open>
  C1: performLotteryDraw does not look at the lottery's status. Here the join handler of
  u3 has read the active lottery of scenarioTwo and waits for the sender lookup; the
  operator's draw command runs, announces u2 and u1 and completes the lottery (a later
  draw command finds no active lottery). The handler then resumes with the row it read:
  u3 is admitted, the limit is reached, and the draw runs again on the completed lottery,
  announcing winners and appending two more winner records.
\<close>

theorem draw_on_completed_lottery_creates_winners:
  "getActiveLottery scenarioTwo ''-1001'' = Some (scenarioLottery 1 3 2 AUTO_SEND 86400)
   \<and> fst (lotteryDraw (scenarioEnv 10) ''-1001'' scenarioTwo) = WinnersAnnounced
   \<and> map lc_status (lottery_config scenarioDrawn) = [''completed'']
   \<and> map lw_user_id (lottery_winners scenarioDrawn) = [''u2'', ''u1'']
   \<and> lotteryDraw (scenarioEnv 11) ''-1001'' scenarioDrawn = (NoActiveLottery, scenarioDrawn)
   \<and> fst (performLotteryDraw (scenarioEnv 11) (scenarioLottery 1 3 2 AUTO_SEND 86400) scenarioDrawn)
       = WinnersAnnounced
   \<and> map lw_user_id (lottery_winners
        (snd (performLotteryDraw (scenarioEnv 11) (scenarioLottery 1 3 2 AUTO_SEND 86400) scenarioDrawn)))
       = [''u2'', ''u1'', ''u2'', ''u1'']
   \<and> fst (joinAndAutoDraw (scenarioEnv 11) (scenarioLottery 1 3 2 AUTO_SEND 86400)
             (scenarioUser ''u3'') scenarioDrawn) = True
   \<and> fst (snd (joinAndAutoDraw (scenarioEnv 11) (scenarioLottery 1 3 2 AUTO_SEND 86400)
             (scenarioUser ''u3'') scenarioDrawn)) = Some WinnersAnnounced
   \<and> map lw_user_id (lottery_winners (snd (snd
          (joinAndAutoDraw (scenarioEnv 11) (scenarioLottery 1 3 2 AUTO_SEND 86400)
             (scenarioUser ''u3'') scenarioDrawn))))
       = [''u2'', ''u1'', ''u2'', ''u3'']"
  by (simp add: scenarioDrawn_def scenarioTwo_def lotteryDraw_def getActiveLottery_def
      joinAndAutoDraw_def scenario_defs admission_defs draw_defs distribution_defs)

section \<open>The create subcommand: stored settings\<close>

lemma createLotteryConfig_row:
  assumes "createLotteryConfig now d config = Inr (lotteryId, d')"
  shows "\<exists>row. lottery_config d' = lottery_config d @ [row]
           \<and> lc_id row = lotteryId
           \<and> lc_mode row = cfg_mode config
           \<and> lc_distribution_mode row = cfg_distribution_mode config
           \<and> lc_claim_timeout row = Some (cfg_claim_timeout config)
           \<and> lc_require_avatar row = cfg_require_avatar config
           \<and> lc_require_username row = cfg_require_username config
           \<and> lc_required_channel row = or_null (cfg_required_channel config)
           \<and> lc_allow_bots row = cfg_allow_bots config
           \<and> lc_status row = ''active''"
  using assms by (auto simp: createLotteryConfig_def split: if_splits)

lemma createFromArgs_cases:
  assumes "createFromArgs parseInt now chatId senderId args d = (reply, d')"
  shows "(d' = d \<and> (\<forall>lotteryId. reply \<noteq> Created lotteryId))
       \<or> (\<exists>lotteryId title keyword m w wh.
             reply = Created lotteryId
           \<and> createLotteryConfig now d (createConfig now chatId senderId title keyword m w wh)
               = Inr (lotteryId, d'))"
  using assms
  by (auto simp: createFromArgs_def Let_def split: option.splits if_splits sum.splits prod.splits)

lemma lotteryCreate_cases:
  assumes "lotteryCreate parseInt now chatId senderId args d = (reply, d')"
  shows "(d' = d \<and> (\<forall>lotteryId. reply \<noteq> Created lotteryId))
       \<or> (\<exists>lotteryId title keyword m w wh.
             reply = Created lotteryId
           \<and> createLotteryConfig now d (createConfig now chatId senderId title keyword m w wh)
               = Inr (lotteryId, d'))"
proof (cases "lotteryCreate parseInt now chatId senderId args d
                = createFromArgs parseInt now chatId senderId args d")
  case True
  then show ?thesis using assms createFromArgs_cases by metis
next
  case False
  then have "d' = d \<and> (\<forall>lotteryId. reply \<noteq> Created lotteryId)"
    using assms by (auto simp: lotteryCreate_def Let_def split: if_splits)
  then show ?thesis by blast
qed

text \<open>
  C10: whatever its arguments, the create subcommand either leaves the database as it
  was or appends one lottery row with distribution\_mode auto-send, claim\_timeout 86400,
  mode manual, no avatar, username or channel requirement, bots not allowed, and status
  active.
\<close>

theorem create_stores_fixed_settings:
  assumes "lotteryCreate parseInt now chatId senderId args d = (reply, d')"
  shows "(case reply of
            Created lotteryId \<Rightarrow>
              (\<exists>row. lottery_config d' = lottery_config d @ [row]
                 \<and> lc_id row = lotteryId
                 \<and> lc_distribution_mode row = AUTO_SEND
                 \<and> lc_claim_timeout row = Some 86400
                 \<and> lc_mode row = MANUAL
                 \<and> lc_require_avatar row = False
                 \<and> lc_require_username row = False
                 \<and> lc_required_channel row = None
                 \<and> lc_allow_bots row = False
                 \<and> lc_status row = ''active'')
          | _ \<Rightarrow> d' = d)"
proof -
  from lotteryCreate_cases[OF assms] show ?thesis
  proof
    assume "d' = d \<and> (\<forall>lotteryId. reply \<noteq> Created lotteryId)"
    then show ?thesis by (cases reply) auto
  next
    assume "\<exists>lotteryId title keyword m w wh.
             reply = Created lotteryId
           \<and> createLotteryConfig now d (createConfig now chatId senderId title keyword m w wh)
               = Inr (lotteryId, d')"
    then obtain lotteryId title keyword m w wh where r: "reply = Created lotteryId"
      and c: "createLotteryConfig now d (createConfig now chatId senderId title keyword m w wh)
               = Inr (lotteryId, d')" by blast
    from createLotteryConfig_row[OF c] show ?thesis
      by (auto simp: r createConfig_def or_null_def)
  qed
qed

theorem create_stores_fixed_settings_witness:
  "fst (lotteryCreate scenarioParseInt 0 ''-1001'' ''42''
          [''create'', ''raffle'', ''join'', ''100'', ''5'', ''w1'']
          (scenarioDb [] [scenarioPrize 1])) = Created 1
   \<and> map lc_distribution_mode (lottery_config (snd (lotteryCreate scenarioParseInt 0 ''-1001'' ''42''
          [''create'', ''raffle'', ''join'', ''100'', ''5'', ''w1'']
          (scenarioDb [] [scenarioPrize 1])))) = [AUTO_SEND]
   \<and> map lc_claim_timeout (lottery_config (snd (lotteryCreate scenarioParseInt 0 ''-1001'' ''42''
          [''create'', ''raffle'', ''join'', ''100'', ''5'', ''w1'']
          (scenarioDb [] [scenarioPrize 1])))) = [Some 86400]
   \<and> lotteryCreate scenarioParseInt 0 ''-1001'' ''42''
          [''create'', ''raffle'', ''join'', ''5'', ''100'', ''w1'']
          (scenarioDb [] [scenarioPrize 1]) = (InvalidNumbers, scenarioDb [] [scenarioPrize 1])"
  using create_stores_fixed_settings [of scenarioParseInt 0 "''-1001''" "''42''"
      "[''create'', ''raffle'', ''join'', ''100'', ''5'', ''w1'']" "scenarioDb [] [scenarioPrize 1]"
      "fst (lotteryCreate scenarioParseInt 0 ''-1001'' ''42''
          [''create'', ''raffle'', ''join'', ''100'', ''5'', ''w1'']
          (scenarioDb [] [scenarioPrize 1]))"
      "snd (lotteryCreate scenarioParseInt 0 ''-1001'' ''42''
          [''create'', ''raffle'', ''join'', ''100'', ''5'', ''w1'']
          (scenarioDb [] [scenarioPrize 1]))"]
  by (simp add: scenario_defs scenarioParseInt_def lotteryCreate_def createFromArgs_def
      createLotteryConfig_def createConfig_def getWarehouseByNameOrIndex_def getPrizeWarehouses_def
      getWarehousePrizes_def getActiveLottery_def toLowerCase_def or_null_def Let_def)

end
